theory Spec2Isabelle
  imports Complex_Main
begin

section \<open>JavaScript numbers\<close>

text \<open>
  A JavaScript number is modelled as a real number, or as \<open>None\<close> for NaN. The rounding
  of a result to the nearest double is left out; an overflow to an infinity is modelled
  where the code can reach one, in the noise coordinates. NaN is kept because the code produces it (a read past the end of an
  array, a token that is not a number, a division by zero, an overflow in the noise
  coordinates) and because it propagates through every arithmetic operation.
\<close>

type_synonym num = "real option"

definition lift2 :: "('a \<Rightarrow> 'b \<Rightarrow> 'c) \<Rightarrow> 'a option \<Rightarrow> 'b option \<Rightarrow> 'c option" where
  "lift2 f a b =
     (case a of None \<Rightarrow> None
      | Some x \<Rightarrow> (case b of None \<Rightarrow> None | Some y \<Rightarrow> Some (f x y)))"

definition nadd :: "num \<Rightarrow> num \<Rightarrow> num" where
  "nadd = lift2 (+)"

definition nsub :: "num \<Rightarrow> num \<Rightarrow> num" where
  "nsub = lift2 (-)"

definition nmul :: "num \<Rightarrow> num \<Rightarrow> num" where
  "nmul = lift2 (*)"

text \<open>
  A result whose magnitude is at or above \<open>2 ^ 1024 - 2 ^ 970\<close> is rounded to an infinity.
\<close>

definition dblOverflow :: real where
  "dblOverflow = 2 ^ 1024 - 2 ^ 970"

text \<open>
  The quotients \<open>x / scale\<close> and \<open>y / scale\<close> of the noise coordinates. With a divisor 0, or
  with a divisor so small that the quotient overflows, JavaScript yields NaN or an infinity,
  and there an infinity becomes NaN at once (\<open>x - Math.floor(x)\<close>), so both are \<open>None\<close>
  here.
\<close>

definition jsdiv :: "real \<Rightarrow> real \<Rightarrow> num" where
  "jsdiv a b = (if b = 0 \<or> dblOverflow \<le> \<bar>a / b\<bar> then None else Some (a / b))"

section \<open>Errors\<close>

text \<open>
  What the code throws: the \<open>Error\<close> of \<open>parseCUBEFile\<close>, the \<open>Error\<close> of
  \<open>loadExternalLUT\<close> for a file that is not there, and the \<open>TypeError\<close> of the runtime
  when a property or an element of \<open>undefined\<close> is read.
\<close>

datatype error = NoValidLUTData | LUTNotFound string | TypeError

text \<open>A loop whose body can throw: the first error ends it.\<close>

fun foldE :: "('a \<Rightarrow> 's \<Rightarrow> error + 's) \<Rightarrow> 'a list \<Rightarrow> 's \<Rightarrow> error + 's" where
  "foldE f [] s = Inr s"
| "foldE f (x # xs) s = (case f x s of Inl e \<Rightarrow> Inl e | Inr s' \<Rightarrow> foldE f xs s')"

section \<open>GrainProcessor: the coherent noise primitive\<close>

definition gradientDot :: "int \<Rightarrow> int \<Rightarrow> real \<Rightarrow> real \<Rightarrow> real" where
  "gradientDot ix iy x y =
     (let random = sin (of_int ix * 12.9898 + of_int iy * 78.233) * 43758.5453;
          angle = (random - of_int \<lfloor>random\<rfloor>) * pi * 2;
          gx = cos angle;
          gy = sin angle
      in gx * x + gy * y)"

definition fade :: "real \<Rightarrow> real" where
  "fade t = t * t * t * (t * (t * 6 - 15) + 10)"

definition lerp :: "real \<Rightarrow> real \<Rightarrow> real \<Rightarrow> real" where
  "lerp a b t = a + t * (b - a)"

definition generateCoherentNoise :: "real \<Rightarrow> real \<Rightarrow> real" where
  "generateCoherentNoise x y =
     (let X = \<lfloor>x\<rfloor>;
          Y = \<lfloor>y\<rfloor>;
          xf = x - of_int X;
          yf = y - of_int Y;
          n00 = gradientDot X Y xf yf;
          n01 = gradientDot X (Y + 1) xf (yf - 1);
          n10 = gradientDot (X + 1) Y (xf - 1) yf;
          n11 = gradientDot (X + 1) (Y + 1) (xf - 1) (yf - 1);
          u = fade xf;
          v = fade yf;
          nx0 = lerp n00 n10 u;
          nx1 = lerp n01 n11 u
      in lerp nx0 nx1 v)"

subsection \<open>The noise primitive as the specification words it\<close>

definition spec_angle :: "int \<Rightarrow> int \<Rightarrow> real" where
  "spec_angle ix iy = frac (sin (of_int ix * 12.9898 + of_int iy * 78.233) * 43758.5453) * (2 * pi)"

definition spec_gradient :: "int \<Rightarrow> int \<Rightarrow> real \<times> real" where
  "spec_gradient ix iy = (cos (spec_angle ix iy), sin (spec_angle ix iy))"





subsection \<open>The noise primitive at coordinates of any size\<close>

text \<open>
  \<open>gradientDot\<close> and \<open>generateCoherentNoise\<close> above are the code where its numbers stay
  finite. For a lattice point so far out that \<open>ix * 12.9898\<close>, \<open>iy * 78.233\<close> or their sum
  overflows, the code computes \<open>Math.sin\<close> of an infinity (or of their difference), which is
  NaN, and the noise that a NaN corner enters is NaN. A NaN coordinate gives NaN as well.
\<close>

definition hashFinite :: "int \<Rightarrow> int \<Rightarrow> bool" where
  "hashFinite ix iy =
     (\<bar>of_int ix * 12.9898\<bar> < dblOverflow \<and> \<bar>of_int iy * 78.233\<bar> < dblOverflow
      \<and> \<bar>of_int ix * 12.9898 + of_int iy * 78.233\<bar> < dblOverflow)"

definition coherentNoise :: "num \<Rightarrow> num \<Rightarrow> num" where
  "coherentNoise cx cy =
     (case cx of
        None \<Rightarrow> None
      | Some x \<Rightarrow>
          (case cy of
             None \<Rightarrow> None
           | Some y \<Rightarrow>
               if hashFinite \<lfloor>x\<rfloor> \<lfloor>y\<rfloor> \<and> hashFinite \<lfloor>x\<rfloor> (\<lfloor>y\<rfloor> + 1)
                  \<and> hashFinite (\<lfloor>x\<rfloor> + 1) \<lfloor>y\<rfloor> \<and> hashFinite (\<lfloor>x\<rfloor> + 1) (\<lfloor>y\<rfloor> + 1)
               then Some (generateCoherentNoise x y)
               else None))"

section \<open>GrainProcessor: grain synthesis\<close>

text \<open>
  What a method can read and change besides its arguments: the stream of values that
  \<open>Math.random()\<close> will return, and how many of them have been drawn.
\<close>

record world =
  draws :: "nat \<Rightarrow> real"
  drawn :: nat

definition random :: "world \<Rightarrow> real \<times> world" where
  "random wd = (draws wd (drawn wd), wd\<lparr>drawn := drawn wd + 1\<rparr>)"

definition scales :: "real list" where
  "scales = [1.0, 2.0, 4.0]"

definition applyFilmCurve :: "real \<Rightarrow> real" where
  "applyFilmCurve v = tanh (v * 2) * 0.5"

text \<open>The body of the loop over the three frequency bands, for pixel \<open>(x, y)\<close>.\<close>

definition bandStep :: "real \<Rightarrow> nat \<Rightarrow> nat \<Rightarrow> nat \<Rightarrow> num \<Rightarrow> num" where
  "bandStep grainSize x y i grainValue =
     (let scale = scales ! i * grainSize;
          weight = 1.0 / (real i + 1);
          noise = coherentNoise (jsdiv (real x) scale) (jsdiv (real y) scale)
      in nadd grainValue (nmul noise (Some weight)))"

definition grainCell :: "real \<Rightarrow> nat \<Rightarrow> nat \<Rightarrow> num" where
  "grainCell grainSize x y =
     (let grainValue = fold (bandStep grainSize x y) [0..<length scales] (Some 0)
      in map_option (\<lambda>v. applyFilmCurve (v / real (length scales))) grainValue)"

text \<open>
  Both generators allocate \<open>Array(height)\<close> of \<open>Array(width).fill(0)\<close> and assign
  \<open>grain[y][x]\<close> in a loop over \<open>y\<close> and, inside, over \<open>x\<close>; the value assigned may use
  the world.
\<close>

definition fillGrid ::
  "(nat \<Rightarrow> nat \<Rightarrow> world \<Rightarrow> num \<times> world) \<Rightarrow> nat \<Rightarrow> nat \<Rightarrow> world \<Rightarrow> num list list \<times> world" where
  "fillGrid cell width height wd =
     fold (\<lambda>y. fold (\<lambda>x (grain, wd).
                  (let (v, wd') = cell x y wd in (grain[y := (grain ! y)[x := v]], wd')))
                [0..<width])
       [0..<height]
       (replicate height (replicate width (Some 0)), wd)"

definition generateMonochromaticGrain ::
  "nat \<Rightarrow> nat \<Rightarrow> real \<Rightarrow> world \<Rightarrow> num list list \<times> world" where
  "generateMonochromaticGrain width height grainSize wd =
     fillGrid (\<lambda>x y wd. (grainCell grainSize x y, wd)) width height wd"

definition generateOptimizedGrain ::
  "nat \<Rightarrow> nat \<Rightarrow> real \<Rightarrow> world \<Rightarrow> num list list \<times> world" where
  "generateOptimizedGrain width height grainSize wd =
     fillGrid (\<lambda>x y wd.
        (let (r1, wd1) = random wd;
             value1 = r1 - 0.5;
             (r2, wd2) = random wd1;
             value2 = r2 - 0.5;
             (r3, wd3) = random wd2;
             value3 = r3 - 0.5
         in (Some ((value1 * 0.6 + value2 * 0.3 + value3 * 0.1) * grainSize), wd3)))
       width height wd"

section \<open>GrainProcessor: compositing\<close>

record iso_params =
  intensity :: real
  size_iso :: real
  contrast :: real

record settings =
  iso :: string
  strength :: real
  grainSize :: real

definition params800 :: iso_params where
  "params800 = \<lparr>intensity = 0.25, size_iso = 1.0, contrast = 0.6\<rparr>"

definition params :: "(string \<times> iso_params) list" where
  "params =
     [(''100'', \<lparr>intensity = 0.08, size_iso = 0.7, contrast = 0.3\<rparr>),
      (''200'', \<lparr>intensity = 0.12, size_iso = 0.8, contrast = 0.4\<rparr>),
      (''400'', \<lparr>intensity = 0.18, size_iso = 0.9, contrast = 0.5\<rparr>),
      (''800'', params800),
      (''1600'', \<lparr>intensity = 0.35, size_iso = 1.2, contrast = 0.7\<rparr>),
      (''3200'', \<lparr>intensity = 0.50, size_iso = 1.5, contrast = 0.8\<rparr>)]"

text \<open>\<open>params[iso] || params[800]\<close>, for the keys the table itself has.\<close>

definition getIsoParameters :: "string \<Rightarrow> iso_params" where
  "getIsoParameters i = (case map_of params i of Some p \<Rightarrow> p | None \<Rightarrow> params800)"

text \<open>
  The pixel buffer is a \<open>Uint8ClampedArray\<close>. A read past its end is \<open>undefined\<close>, which
  is NaN in arithmetic. A store converts the number to a byte: NaN to 0, otherwise
  saturated to 0..255 and rounded to the nearest integer, ties to the even one; a store
  past the end is ignored.
\<close>

definition rd :: "int list \<Rightarrow> nat \<Rightarrow> num" where
  "rd data i = (if i < length data then Some (of_int (data ! i)) else None)"

definition toUint8Clamp :: "num \<Rightarrow> int" where
  "toUint8Clamp v =
     (case v of
        None \<Rightarrow> 0
      | Some r \<Rightarrow>
          if r \<le> 0 then 0
          else if 255 \<le> r then 255
          else (let f = \<lfloor>r\<rfloor> in
                if r - of_int f < 1 / 2 then f
                else if 1 / 2 < r - of_int f then f + 1
                else if even f then f else f + 1))"

definition store :: "int list \<Rightarrow> nat \<Rightarrow> num \<Rightarrow> int list" where
  "store data i v = data[i := toUint8Clamp v]"

text \<open>\<open>Math.max(0, Math.min(255, value))\<close>; NaN stays NaN.\<close>

definition clamp :: "num \<Rightarrow> num" where
  "clamp v = map_option (\<lambda>r. max 0 (min 255 r)) v"

definition luminanceAt :: "int list \<Rightarrow> nat \<Rightarrow> nat \<Rightarrow> nat \<Rightarrow> num" where
  "luminanceAt data width x y =
     (let index = (y * width + x) * 4;
          r = rd data index;
          g = rd data (index + 1);
          b = rd data (index + 2)
      in map_option (\<lambda>s. s / 255)
           (nadd (nadd (nmul (Some 0.299) r) (nmul (Some 0.587) g)) (nmul (Some 0.114) b)))"

definition createLuminanceMap ::
  "int list \<Rightarrow> nat \<Rightarrow> nat \<Rightarrow> world \<Rightarrow> num list list \<times> world" where
  "createLuminanceMap data width height wd =
     fillGrid (\<lambda>x y wd. (luminanceAt data width x y, wd)) width height wd"

definition getAdaptiveStrength :: "num \<Rightarrow> real \<Rightarrow> num" where
  "getAdaptiveStrength luminance baseIntensity =
     map_option
       (\<lambda>l. let midtoneCurve = exp (- ((l - 0.5) ^ 2) / 0.18)
            in baseIntensity * (0.4 + 0.6 * midtoneCurve))
       luminance"

text \<open>
  The body of the loop over the pixels: the same \<open>grainValue\<close> goes to R, G and B. The sum
  \<open>data[index] + grainValue\<close> is exact here; the code rounds it to a double before the store,
  which can move a sum onto a tie or off it.
\<close>

definition grainPixel ::
  "num list list \<Rightarrow> num list list \<Rightarrow> real \<Rightarrow> nat \<Rightarrow> nat \<Rightarrow> nat \<Rightarrow> int list \<Rightarrow> int list" where
  "grainPixel luminanceMap grainPattern grainIntensity width y x data =
     (let index = (y * width + x) * 4;
          luminance = luminanceMap ! y ! x;
          adaptiveStrength = getAdaptiveStrength luminance grainIntensity;
          grainValue = nmul (nmul (grainPattern ! y ! x) adaptiveStrength) (Some 255);
          data1 = store data index (clamp (nadd (rd data index) grainValue));
          data2 = store data1 (index + 1) (clamp (nadd (rd data1 (index + 1)) grainValue));
          data3 = store data2 (index + 2) (clamp (nadd (rd data2 (index + 2)) grainValue))
      in data3)"

definition applyNaturalGrain ::
  "int list \<Rightarrow> nat \<Rightarrow> nat \<Rightarrow> settings \<Rightarrow> world \<Rightarrow> int list \<times> world" where
  "applyNaturalGrain data width height st wd =
     (let isoParams = getIsoParameters (iso st);
          grainIntensity = strength st * intensity isoParams;
          grainSize' = grainSize st * size_iso isoParams;
          (luminanceMap, wd1) = createLuminanceMap data width height wd;
          (grainPattern, wd2) = generateMonochromaticGrain width height grainSize' wd1
      in (fold (\<lambda>y. fold (grainPixel luminanceMap grainPattern grainIntensity width y) [0..<width])
            [0..<height] data,
          wd2))"

text \<open>
  Two notions to state what the loop does to a buffer: the grain value of pixel \<open>(x, y)\<close>
  as \<open>applyNaturalGrain\<close> computes it from the buffer it is given, and the byte a channel
  becomes when a grain value is added to it.
\<close>

definition gvOf :: "num list list \<Rightarrow> num list list \<Rightarrow> real \<Rightarrow> nat \<Rightarrow> nat \<Rightarrow> num" where
  "gvOf luminanceMap grainPattern grainIntensity y x =
     nmul (nmul (grainPattern ! y ! x)
                (getAdaptiveStrength (luminanceMap ! y ! x) grainIntensity))
          (Some 255)"

definition grainValueAt :: "int list \<Rightarrow> nat \<Rightarrow> settings \<Rightarrow> nat \<Rightarrow> nat \<Rightarrow> num" where
  "grainValueAt data width st x y =
     nmul (nmul (grainCell (grainSize st * size_iso (getIsoParameters (iso st))) x y)
                (getAdaptiveStrength (luminanceAt data width x y)
                   (strength st * intensity (getIsoParameters (iso st)))))
          (Some 255)"

definition grainStore :: "int \<Rightarrow> num \<Rightarrow> int" where
  "grainStore old gv = toUint8Clamp (clamp (nadd (Some (of_int old)) gv))"

section \<open>LUTProcessor: tables and sampling\<close>

record color =
  r_ch :: num
  g_ch :: num
  b_ch :: num

text \<open>\<open>size\<close> is what \<open>parseInt\<close> returned: an integer, or NaN (\<open>None\<close>).\<close>

record lut =
  size_lut :: "int option"
  data_lut :: "color list"
  title_lut :: string

record image_data =
  data_img :: "int list"
  width_img :: nat
  height_img :: nat

definition mix :: "num \<Rightarrow> num \<Rightarrow> num \<Rightarrow> num" where
  "mix a b t = nadd a (nmul (nsub b a) t)"

definition mixColor :: "color \<Rightarrow> color \<Rightarrow> num \<Rightarrow> color" where
  "mixColor c1 c2 t =
     \<lparr>r_ch = mix (r_ch c1) (r_ch c2) t,
      g_ch = mix (g_ch c1) (g_ch c2) t,
      b_ch = mix (b_ch c1) (b_ch c2) t\<rparr>"

text \<open>
  \<open>lut.data[Math.min(index, lut.data.length - 1)]\<close>: \<open>undefined\<close> (\<open>None\<close>) when the index
  is NaN or negative, which includes the empty table.
\<close>

definition getLUTColor ::
  "lut \<Rightarrow> int option \<Rightarrow> int option \<Rightarrow> int option \<Rightarrow> int option \<Rightarrow> color option" where
  "getLUTColor l x y z sz =
     (let index = lift2 (+) (lift2 (+) (lift2 (*) (lift2 (*) z sz) sz) (lift2 (*) y sz)) x
      in case index of
           None \<Rightarrow> None
         | Some i \<Rightarrow>
             (let j = min i (int (length (data_lut l)) - 1)
              in if j < 0 then None else Some (data_lut l ! nat j)))"

text \<open>\<open>mixColor\<close> on what \<open>getLUTColor\<close> returned: reading \<open>.r\<close> of \<open>undefined\<close> throws.\<close>

definition mixFetched :: "color option \<Rightarrow> color option \<Rightarrow> num \<Rightarrow> error + color" where
  "mixFetched c1 c2 t =
     (case c1 of
        None \<Rightarrow> Inl TypeError
      | Some a \<Rightarrow> (case c2 of None \<Rightarrow> Inl TypeError | Some b \<Rightarrow> Inr (mixColor a b t)))"

definition sampleLUT3D :: "lut \<Rightarrow> num \<Rightarrow> num \<Rightarrow> num \<Rightarrow> int option \<Rightarrow> error + color" where
  "sampleLUT3D l r g b sz =
     (let top = lift2 (-) sz (Some 1);
          x = nmul r (map_option of_int top);
          y = nmul g (map_option of_int top);
          z = nmul b (map_option of_int top);
          x0 = map_option floor x;
          y0 = map_option floor y;
          z0 = map_option floor z;
          x1 = lift2 min (lift2 (+) x0 (Some 1)) top;
          y1 = lift2 min (lift2 (+) y0 (Some 1)) top;
          z1 = lift2 min (lift2 (+) z0 (Some 1)) top;
          dx = nsub x (map_option of_int x0);
          dy = nsub y (map_option of_int y0);
          dz = nsub z (map_option of_int z0);
          c000 = getLUTColor l x0 y0 z0 sz;
          c100 = getLUTColor l x1 y0 z0 sz;
          c010 = getLUTColor l x0 y1 z0 sz;
          c110 = getLUTColor l x1 y1 z0 sz;
          c001 = getLUTColor l x0 y0 z1 sz;
          c101 = getLUTColor l x1 y0 z1 sz;
          c011 = getLUTColor l x0 y1 z1 sz;
          c111 = getLUTColor l x1 y1 z1 sz
      in case mixFetched c000 c100 dx of Inl e \<Rightarrow> Inl e | Inr c00 \<Rightarrow>
         (case mixFetched c001 c101 dx of Inl e \<Rightarrow> Inl e | Inr c01 \<Rightarrow>
         (case mixFetched c010 c110 dx of Inl e \<Rightarrow> Inl e | Inr c10 \<Rightarrow>
         (case mixFetched c011 c111 dx of Inl e \<Rightarrow> Inl e | Inr c11 \<Rightarrow>
            (let c0 = mixColor c00 c10 dy;
                 c1 = mixColor c01 c11 dy
             in Inr (mixColor c0 c1 dz))))))"

section \<open>LUTProcessor: grading an image\<close>

text \<open>The body of the loop of \<open>applyLUTTransformation\<close>, for the pixel at byte \<open>i\<close>.\<close>

definition lutPixel :: "lut \<Rightarrow> real \<Rightarrow> nat \<Rightarrow> int list \<Rightarrow> error + int list" where
  "lutPixel l s i d =
     (let r = map_option (\<lambda>v. v / 255) (rd d i);
          g = map_option (\<lambda>v. v / 255) (rd d (i + 1));
          b = map_option (\<lambda>v. v / 255) (rd d (i + 2))
      in case sampleLUT3D l r g b (size_lut l) of
           Inl e \<Rightarrow> Inl e
         | Inr lutColor \<Rightarrow>
             (let d1 = store d i (mix (rd d i) (nmul (r_ch lutColor) (Some 255)) (Some s));
                  d2 = store d1 (i + 1)
                         (mix (rd d1 (i + 1)) (nmul (g_ch lutColor) (Some 255)) (Some s));
                  d3 = store d2 (i + 2)
                         (mix (rd d2 (i + 2)) (nmul (b_ch lutColor) (Some 255)) (Some s))
              in Inr d3))"

text \<open>
  The loop runs over \<open>i = 0, 4, 8, \<dots>\<close> below the length of a copy of the data; the result
  is a new image of the same width and height.
\<close>

definition applyLUTTransformation :: "image_data \<Rightarrow> lut \<Rightarrow> real \<Rightarrow> error + image_data" where
  "applyLUTTransformation imageData l s =
     (let d = data_img imageData;
          dataLength = length d
      in case foldE (lutPixel l s) (map (\<lambda>k. 4 * k) [0..<(dataLength + 3) div 4]) d of
           Inl e \<Rightarrow> Inl e
         | Inr d' \<Rightarrow> Inr (imageData\<lparr>data_img := d'\<rparr>))"

section \<open>LUTProcessor: parsing a .cube file\<close>

text \<open>
  Strings are lists of bytes. White space is the ASCII part of what \<open>trim\<close> and \<open>\s\<close>
  accept: space, tab, line feed, vertical tab, form feed, carriage return.
\<close>

definition is_ws :: "char \<Rightarrow> bool" where
  "is_ws c = (c = CHR '' '' \<or> c = CHR 0x09 \<or> c = CHR 0x0A \<or> c = CHR 0x0B \<or> c = CHR 0x0C
              \<or> c = CHR 0x0D)"

definition trim :: "string \<Rightarrow> string" where
  "trim s = rev (dropWhile is_ws (rev (dropWhile is_ws s)))"

definition startsWith :: "string \<Rightarrow> string \<Rightarrow> bool" where
  "startsWith s p = (take (length p) s = p)"

text \<open>\<open>content.split('\n')\<close>, with the line being read as accumulator.\<close>

fun splitLines :: "string \<Rightarrow> string \<Rightarrow> string list" where
  "splitLines cur [] = [cur]"
| "splitLines cur (c # cs) =
     (if c = CHR 0x0A then cur # splitLines [] cs else splitLines (cur @ [c]) cs)"

text \<open>\<open>trimmed.split(/\s+/).filter(v => v)\<close>: the maximal runs of characters that are not
  white space.\<close>

fun splitWs :: "string \<Rightarrow> string \<Rightarrow> string list" where
  "splitWs cur [] = (if cur = [] then [] else [cur])"
| "splitWs cur (c # cs) =
     (if is_ws c then (if cur = [] then splitWs [] cs else cur # splitWs [] cs)
      else splitWs (cur @ [c]) cs)"

definition tokens :: "string \<Rightarrow> string list" where
  "tokens s = splitWs [] s"

definition is_digit :: "char \<Rightarrow> bool" where
  "is_digit c = (48 \<le> (of_char c :: nat) \<and> (of_char c :: nat) \<le> 57)"

definition digitsValue :: "string \<Rightarrow> nat" where
  "digitsValue ds = foldl (\<lambda>n c. 10 * n + (of_char c - 48)) 0 ds"

definition is_hex :: "char \<Rightarrow> bool" where
  "is_hex c = (is_digit c \<or> (65 \<le> (of_char c :: nat) \<and> (of_char c :: nat) \<le> 70)
               \<or> (97 \<le> (of_char c :: nat) \<and> (of_char c :: nat) \<le> 102))"

definition hexValue :: "string \<Rightarrow> nat" where
  "hexValue ds =
     foldl (\<lambda>n c. 16 * n + (if is_digit c then of_char c - 48
                             else if of_char c \<le> (70::nat) then of_char c - 55
                             else of_char c - 87)) 0 ds"

text \<open>A leading \<open>-\<close> or \<open>+\<close>: whether the number is negative, and the rest.\<close>

definition signOf :: "string \<Rightarrow> bool \<times> string" where
  "signOf s =
     (case s of
        [] \<Rightarrow> (False, s)
      | c # t \<Rightarrow> if c = CHR ''-'' then (True, t) else if c = CHR ''+'' then (False, t)
                else (False, s))"

text \<open>What \<open>parseFloat\<close> returns; the clamp to \<open>[0, 1]\<close> that follows removes the
  infinities.\<close>

datatype number = NaN | PosInfinity | NegInfinity | Finite real

definition parseExponent :: "string \<Rightarrow> int" where
  "parseExponent s =
     (case s of
        [] \<Rightarrow> 0
      | c # t \<Rightarrow>
          if c = CHR ''e'' \<or> c = CHR ''E''
          then (let (neg, u) = signOf t;
                    ds = takeWhile is_digit u
                in if ds = [] then 0
                   else if neg then - int (digitsValue ds) else int (digitsValue ds))
          else 0)"

text \<open>
  \<open>parseFloat\<close>: the longest prefix that is a decimal literal (sign, digits, fraction,
  exponent, or \<open>Infinity\<close>), NaN if there is none. The value is the real number the
  literal denotes.
\<close>

definition parseFloat :: "string \<Rightarrow> number" where
  "parseFloat s0 =
     (let (neg, s1) = signOf (dropWhile is_ws s0)
      in if startsWith s1 ''Infinity'' then (if neg then NegInfinity else PosInfinity)
         else
           (let ip = takeWhile is_digit s1;
                r1 = dropWhile is_digit s1;
                (fp, r2) =
                  (case r1 of
                     [] \<Rightarrow> ([], r1)
                   | c # t \<Rightarrow> if c = CHR ''.'' then (takeWhile is_digit t, dropWhile is_digit t)
                             else ([], r1))
            in if ip = [] \<and> fp = [] then NaN
               else
                 (let m = real (digitsValue (ip @ fp)) / 10 ^ length fp;
                      e = parseExponent r2;
                      v = (if 0 \<le> e then m * 10 ^ nat e else m / 10 ^ nat (- e))
                  in Finite (if neg then - v else v))))"

text \<open>\<open>parseInt\<close> without a radix: decimal digits, or hexadecimal ones after \<open>0x\<close>.\<close>

definition parseInt :: "string \<Rightarrow> int option" where
  "parseInt s0 =
     (let (neg, s1) = signOf (dropWhile is_ws s0)
      in if startsWith s1 ''0x'' \<or> startsWith s1 ''0X''
         then (let ds = takeWhile is_hex (drop 2 s1)
               in if ds = [] then None
                  else Some (if neg then - int (hexValue ds) else int (hexValue ds)))
         else (let ds = takeWhile is_digit s1
               in if ds = [] then None
                  else Some (if neg then - int (digitsValue ds) else int (digitsValue ds))))"

text \<open>\<open>Math.max(0, Math.min(1, v))\<close>.\<close>

definition clamp01 :: "number \<Rightarrow> num" where
  "clamp01 v =
     (case v of
        NaN \<Rightarrow> None
      | PosInfinity \<Rightarrow> Some 1
      | NegInfinity \<Rightarrow> Some 0
      | Finite x \<Rightarrow> Some (max 0 (min 1 x)))"

definition rowOf :: "string list \<Rightarrow> color" where
  "rowOf values =
     \<lparr>r_ch = clamp01 (parseFloat (values ! 0)),
      g_ch = clamp01 (parseFloat (values ! 1)),
      b_ch = clamp01 (parseFloat (values ! 2))\<rparr>"

text \<open>The body of the loop over the lines.\<close>

definition parseLine :: "string \<Rightarrow> lut \<Rightarrow> lut" where
  "parseLine line l =
     (let trimmed = trim line
      in if trimmed = [] \<or> startsWith trimmed ''#'' then l
         else if startsWith trimmed ''TITLE''
         then l\<lparr>title_lut := trim (filter (\<lambda>c. c \<noteq> CHR 0x22) (drop 5 trimmed))\<rparr>
         else if startsWith trimmed ''LUT_3D_SIZE''
         then l\<lparr>size_lut := parseInt (trim (drop 11 trimmed))\<rparr>
         else (let values = tokens trimmed
               in if length values = 3 then l\<lparr>data_lut := data_lut l @ [rowOf values]\<rparr>
                  else l))"

text \<open>A size that does not fit the number of rows is only logged.\<close>

definition parseCUBEFile :: "string \<Rightarrow> error + lut" where
  "parseCUBEFile content =
     (let l = fold parseLine (splitLines [] content)
                \<lparr>size_lut = Some 33, data_lut = [], title_lut = ''Unknown LUT''\<rparr>
      in if data_lut l = [] then Inl NoValidLUTData else Inr l)"

text \<open>
  The rows of a payload, said without the loop: a data line is a line that is not blank,
  not a comment, not a \<open>TITLE\<close> or \<open>LUT_3D_SIZE\<close> line, and has exactly three tokens; it is
  a row of floats when each of the three tokens parses as a number.
\<close>

definition isDataLine :: "string \<Rightarrow> bool" where
  "isDataLine line =
     (trim line \<noteq> [] \<and> \<not> startsWith (trim line) ''#'' \<and> \<not> startsWith (trim line) ''TITLE''
      \<and> \<not> startsWith (trim line) ''LUT_3D_SIZE'' \<and> length (tokens (trim line)) = 3)"

definition isFloatRow :: "string \<Rightarrow> bool" where
  "isFloatRow line = (isDataLine line \<and> list_all (\<lambda>v. parseFloat v \<noteq> NaN) (tokens (trim line)))"

definition dataRows :: "string \<Rightarrow> color list" where
  "dataRows content =
     map (\<lambda>line. rowOf (tokens (trim line))) (filter isDataLine (splitLines [] content))"

section \<open>LUTProcessor: the cache and \<open>applyLUT\<close>\<close>

text \<open>
  A cache entry holds the parsed table, or nothing while the file has not been loaded
  (metadata and access times do not reach any result and are left out). The network is
  what the \<open>fetch\<close> calls see: the identifiers that the manifest or the scan of the folder
  yields, and the text of \<open>luts/<name>.cube\<close> when that file can be fetched.
\<close>

record lut_info =
  data_info :: "lut option"

record lut_processor =
  lutCache :: "string \<Rightarrow> lut_info option"
  isInitialized :: bool

record network =
  discovered :: "string list"
  cube :: "string \<Rightarrow> string option"

definition initialize :: "network \<Rightarrow> lut_processor \<Rightarrow> lut_processor" where
  "initialize net p =
     (if isInitialized p then p
      else p\<lparr>lutCache := fold (\<lambda>lutId c. c(lutId \<mapsto> \<lparr>data_info = None\<rparr>)) (discovered net)
                            (lutCache p),
             isInitialized := True\<rparr>)"

definition loadExternalLUT ::
  "network \<Rightarrow> lut_processor \<Rightarrow> string \<Rightarrow> (error + lut) \<times> lut_processor" where
  "loadExternalLUT net p lutName =
     (case cube net lutName of
        None \<Rightarrow> (Inl (LUTNotFound lutName), p\<lparr>lutCache := (lutCache p)(lutName := None)\<rparr>)
      | Some cubeContent \<Rightarrow>
          (case parseCUBEFile cubeContent of
             Inl e \<Rightarrow> (Inl e, p\<lparr>lutCache := (lutCache p)(lutName := None)\<rparr>)
           | Inr lutData \<Rightarrow>
               (Inr lutData,
                p\<lparr>lutCache := (lutCache p)(lutName \<mapsto> \<lparr>data_info = Some lutData\<rparr>)\<rparr>)))"

text \<open>
  The image is \<open>None\<close> for \<open>null\<close>. The result is \<open>Inr\<close> of what the promise resolves to,
  or \<open>Inl\<close> of the error it rejects with.
\<close>

definition applyLUT ::
  "network \<Rightarrow> lut_processor \<Rightarrow> image_data option \<Rightarrow> string \<Rightarrow> real
     \<Rightarrow> (error + image_data option) \<times> lut_processor" where
  "applyLUT net p0 imageData lutName s =
     (let p = initialize net p0
      in case imageData of
           None \<Rightarrow> (Inr imageData, p)
         | Some img \<Rightarrow>
             if lutName = ''none'' \<or> s = 0 then (Inr imageData, p)
             else
               (case lutCache p lutName of
                  None \<Rightarrow> (Inr imageData, p)
                | Some lutInfo \<Rightarrow>
                    (let (loaded, p') =
                           (case data_info lutInfo of
                              Some lutData \<Rightarrow> (Inr lutData, p)
                            | None \<Rightarrow> loadExternalLUT net p lutName)
                     in case loaded of
                          Inl e \<Rightarrow> (Inr imageData, p')
                        | Inr lutData \<Rightarrow>
                            (case applyLUTTransformation img lutData s of
                               Inl e \<Rightarrow> (Inl e, p')
                             | Inr graded \<Rightarrow> (Inr (Some graded), p')))))"

section \<open>Concrete inputs\<close>

text \<open>A world in which \<open>Math.random()\<close> always returns 0, for concrete runs.\<close>

definition world0 :: world where
  "world0 = \<lparr>draws = (\<lambda>n. 0), drawn = 0\<rparr>"

text \<open>Buffers and settings for concrete runs: two pixels in a row, ISO 800, grain size 1.\<close>

definition red_row :: "int list" where
  "red_row = [255, 0, 0, 255, 255, 0, 0, 255]"

definition mixed_row :: "int list" where
  "mixed_row = [128, 128, 128, 255, 100, 150, 200, 255]"

definition settings800 :: "real \<Rightarrow> settings" where
  "settings800 s = \<lparr>iso = ''800'', strength = s, grainSize = 1\<rparr>"

text \<open>Tables and an image for concrete runs; a colour is numeric when no channel is NaN.\<close>

definition numeric :: "color \<Rightarrow> bool" where
  "numeric c = (r_ch c \<noteq> None \<and> g_ch c \<noteq> None \<and> b_ch c \<noteq> None)"

definition rgb :: "real \<Rightarrow> real \<Rightarrow> real \<Rightarrow> color" where
  "rgb x y z = \<lparr>r_ch = Some x, g_ch = Some y, b_ch = Some z\<rparr>"

definition identity2 :: lut where
  "identity2 =
     \<lparr>size_lut = Some 2,
      data_lut = [rgb 0 0 0, rgb 1 0 0, rgb 0 1 0, rgb 1 1 0,
                  rgb 0 0 1, rgb 1 0 1, rgb 0 1 1, rgb 1 1 1],
      title_lut = ''identity''\<rparr>"

definition nan_lut :: lut where
  "nan_lut =
     \<lparr>size_lut = Some 2,
      data_lut = [rgb 0 0 0, \<lparr>r_ch = None, g_ch = Some 0, b_ch = Some 1\<rparr>, rgb 0 1 0, rgb 1 1 0,
                  rgb 0 0 1, rgb 1 0 1, rgb 0 1 1, rgb 1 1 1],
      title_lut = ''Unknown LUT''\<rparr>"

definition invert2 :: lut where
  "invert2 =
     \<lparr>size_lut = Some 2,
      data_lut = [rgb 1 1 1, rgb 0 1 1, rgb 1 0 1, rgb 0 0 1,
                  rgb 1 1 0, rgb 0 1 0, rgb 1 0 0, rgb 0 0 0],
      title_lut = ''invert''\<rparr>"

definition one_pixel :: image_data where
  "one_pixel = \<lparr>data_img = [0, 0, 0, 77], width_img = 1, height_img = 1\<rparr>"

text \<open>Payloads for concrete runs: a header line of three tokens, a table that is too
  short for its size, and a file without rows.\<close>

definition range_line :: string where
  "range_line = ''LUT_3D_INPUT_RANGE 0.0 1.0''"

definition short_cube :: string where
  "short_cube = ''LUT_3D_SIZE 2'' @ [CHR 0x0A] @ ''0 0.5 1''"

definition comment_only :: string where
  "comment_only = ''# no rows'' @ [CHR 0x0A] @ ''TITLE x''"

text \<open>A processor that has not been initialised, one that holds a loaded table, and a
  network on which no file can be fetched.\<close>

definition fresh :: lut_processor where
  "fresh = \<lparr>lutCache = (\<lambda>lutId. None), isInitialized = False\<rparr>"

definition offline :: network where
  "offline = \<lparr>discovered = [''Fuji_Pro_400h''], cube = (\<lambda>lutName. None)\<rparr>"

definition loaded :: lut_processor where
  "loaded = \<lparr>lutCache = (\<lambda>lutId. if lutId = ''invert'' then Some \<lparr>data_info = Some invert2\<rparr>
                                    else None),
             isInitialized = True\<rparr>"

section \<open>Properties of the noise primitive\<close>

lemma gradientDot_spec:
  "gradientDot ix iy dx dy = fst (spec_gradient ix iy) * dx + snd (spec_gradient ix iy) * dy"
  by (simp add: gradientDot_def spec_gradient_def spec_angle_def frac_def Let_def mult_ac)



section \<open>Properties of grain synthesis\<close>

lemma row_fill:
  assumes "\<And>x wd. cell x y wd = (c x, wd)"
  shows "n \<le> length (g ! y) \<Longrightarrow> y < length g \<Longrightarrow>
     fold (\<lambda>x (grain, wd). (let (v, wd') = cell x y wd in (grain[y := (grain ! y)[x := v]], wd')))
       [0..<n] (g, wd)
     = (g[y := map c [0..<n] @ drop n (g ! y)], wd)"
proof (induction n)
  case 0
  then show ?case by simp
next
  case (Suc n)
  have "(map c [0..<n] @ drop n (g ! y))[n := c n] = map c [0..<n] @ c n # drop (Suc n) (g ! y)"
    using Suc.prems by (simp add: list_update_append upd_conv_take_nth_drop Cons_nth_drop_Suc)
  then show ?case using Suc by (simp add: assms)
qed

text \<open>A grid whose cells do not use the world is the table of its cells, and the world stays.\<close>

lemma fillGrid_pure:
  assumes "\<And>x y wd. cell x y wd = (c x y, wd)"
  shows "fillGrid cell w h wd = (map (\<lambda>y. map (\<lambda>x. c x y) [0..<w]) [0..<h], wd)"
proof -
  let ?row = "\<lambda>y. fold (\<lambda>x (grain, wd).
    (let (v, wd') = cell x y wd in (grain[y := (grain ! y)[x := v]], wd'))) [0..<w]"
  let ?G = "replicate h (replicate w (Some 0 :: num))"
  let ?new = "\<lambda>y. map (\<lambda>x. c x y) [0..<w]"
  have "m \<le> h \<Longrightarrow> fold ?row [0..<m] (?G, wd) = (map ?new [0..<m] @ drop m ?G, wd)" for m
  proof (induction m)
    case 0
    then show ?case by simp
  next
    case (Suc m)
    let ?g = "map ?new [0..<m] @ drop m ?G"
    have g: "m < length ?g" "?g ! m = replicate w (Some 0)"
      using Suc.prems by (auto simp: nth_append)
    have d: "drop m ?G = replicate w (Some 0) # drop (Suc m) ?G"
    proof -
      from Suc.prems have "h - m = Suc (h - Suc m)" by simp
      then show ?thesis by simp
    qed
    have "?row m (?g, wd) = (?g[m := ?new m @ drop w (?g ! m)], wd)"
      using g by (intro row_fill) (auto simp: assms)
    moreover have "?g[m := ?new m @ drop w (?g ! m)] = map ?new [0..<Suc m] @ drop (Suc m) ?G"
      unfolding g(2) by (subst d) (simp add: list_update_append)
    ultimately show ?case using Suc by simp
  qed
  from this[of h] show ?thesis by (simp add: fillGrid_def)
qed

lemma generateMonochromaticGrain_eq:
  "generateMonochromaticGrain w h gs wd
     = (map (\<lambda>y. map (\<lambda>x. grainCell gs x y) [0..<w]) [0..<h], wd)"
  unfolding generateMonochromaticGrain_def by (rule fillGrid_pure) simp

lemma createLuminanceMap_eq:
  "createLuminanceMap data w h wd
     = (map (\<lambda>y. map (\<lambda>x. luminanceAt data w x y) [0..<w]) [0..<h], wd)"
  unfolding createLuminanceMap_def by (rule fillGrid_pure) simp

lemma dblOverflow_lower: "2 ^ 1023 \<le> dblOverflow"
proof -
  have "(2::real) ^ 1024 = 2 ^ 970 * 2 ^ 54" "(2::real) ^ 1023 = 2 ^ 970 * 2 ^ 53"
    by (simp_all add: power_add [symmetric])
  then have "dblOverflow - 2 ^ 1023 = 2 ^ 970 * (2 ^ 54 - 1 - 2 ^ 53)"
    by (simp add: dblOverflow_def algebra_simps)
  moreover have "(0::real) \<le> 2 ^ 970 * (2 ^ 54 - 1 - 2 ^ 53)"
    by (intro mult_nonneg_nonneg) simp_all
  ultimately show ?thesis
    by linarith
qed

lemma dblOverflow_upper: "dblOverflow \<le> 10 ^ 309"
  by (simp add: dblOverflow_def)

lemma three_below:
  fixes a b s m d :: real
  assumes "a \<le> m" "b \<le> m" "s \<le> a + b" "0 \<le> a" "0 \<le> b" "m + m < d"
  shows "a < d \<and> b < d \<and> s < d"
  using assms by linarith

lemma hashFinite_small:
  assumes "\<bar>real_of_int ix\<bar> \<le> 2 ^ 1001" "\<bar>real_of_int iy\<bar> \<le> 2 ^ 1001"
  shows "hashFinite ix iy"
proof -
  have x: "\<bar>real_of_int ix * 12.9898\<bar> \<le> 2 ^ 1001 * 2 ^ 7"
    unfolding abs_mult using assms(1) by (intro mult_mono) simp_all
  have y: "\<bar>real_of_int iy * 78.233\<bar> \<le> 2 ^ 1001 * 2 ^ 7"
    unfolding abs_mult using assms(2) by (intro mult_mono) simp_all
  have e: "(2::real) ^ 1001 * 2 ^ 7 + 2 ^ 1001 * 2 ^ 7 = 2 ^ 1009"
    by (simp add: power_add [symmetric])
  have "(2::real) ^ 1009 < 2 ^ 1023"
    by (rule power_strict_increasing) simp_all
  then have "(2::real) ^ 1009 < dblOverflow"
    using dblOverflow_lower by (rule less_le_trans)
  then have m: "(2::real) ^ 1001 * 2 ^ 7 + 2 ^ 1001 * 2 ^ 7 < dblOverflow"
    by (simp only: e)
  have s: "\<bar>real_of_int ix * 12.9898 + real_of_int iy * 78.233\<bar>
      \<le> \<bar>real_of_int ix * 12.9898\<bar> + \<bar>real_of_int iy * 78.233\<bar>"
    by (rule abs_triangle_ineq)
  show ?thesis
    unfolding hashFinite_def
    using three_below [OF x y s abs_ge_zero abs_ge_zero m] .
qed

lemma coherentNoise_safe:
  assumes "0 \<le> x" "x \<le> 2 ^ 1000" "0 \<le> y" "y \<le> 2 ^ 1000"
  shows "coherentNoise (Some x) (Some y) = Some (generateCoherentNoise x y)"
proof -
  have big: "(2::real) ^ 1000 + 1 \<le> 2 ^ 1001"
  proof -
    have "(1::real) \<le> 2 ^ 1000" by (rule one_le_power) simp
    then show ?thesis by simp
  qed
  have fx: "0 \<le> real_of_int \<lfloor>x\<rfloor>" "real_of_int \<lfloor>x\<rfloor> \<le> 2 ^ 1000"
    using assms(1,2) by (simp, linarith)
  have fy: "0 \<le> real_of_int \<lfloor>y\<rfloor>" "real_of_int \<lfloor>y\<rfloor> \<le> 2 ^ 1000"
    using assms(3,4) by (simp, linarith)
  have "\<bar>real_of_int \<lfloor>x\<rfloor>\<bar> \<le> 2 ^ 1001" "\<bar>real_of_int (\<lfloor>x\<rfloor> + 1)\<bar> \<le> 2 ^ 1001"
    "\<bar>real_of_int \<lfloor>y\<rfloor>\<bar> \<le> 2 ^ 1001" "\<bar>real_of_int (\<lfloor>y\<rfloor> + 1)\<bar> \<le> 2 ^ 1001"
    using fx fy big by simp_all
  then show ?thesis
    by (simp add: coherentNoise_def hashFinite_small)
qed

lemma jsdiv_safe:
  assumes "0 < s" "0 \<le> a" "a \<le> s * 2 ^ 1000"
  shows "jsdiv a s = Some (a / s)" "0 \<le> a / s" "a / s \<le> 2 ^ 1000"
proof -
  show q: "0 \<le> a / s" "a / s \<le> 2 ^ 1000"
    using assms by (simp_all add: field_simps)
  have "(2::real) ^ 1000 < 2 ^ 1023"
    by (rule power_strict_increasing) simp_all
  with q dblOverflow_lower have "\<not> dblOverflow \<le> \<bar>a / s\<bar>"
    by linarith
  then show "jsdiv a s = Some (a / s)"
    using assms(1) by (simp add: jsdiv_def)
qed

lemma noise_call_safe:
  assumes "0 < s" "real x \<le> s * 2 ^ 1000" "real y \<le> s * 2 ^ 1000"
  shows "coherentNoise (jsdiv (real x) s) (jsdiv (real y) s)
     = Some (generateCoherentNoise (real x / s) (real y / s))"
proof -
  have x: "jsdiv (real x) s = Some (real x / s)" "0 \<le> real x / s" "real x / s \<le> 2 ^ 1000"
    using jsdiv_safe [OF assms(1) _ assms(2)] by simp_all
  have y: "jsdiv (real y) s = Some (real y / s)" "0 \<le> real y / s" "real y / s \<le> 2 ^ 1000"
    using jsdiv_safe [OF assms(1) _ assms(3)] by simp_all
  show ?thesis
    unfolding x(1) y(1) using x(2,3) y(2,3) by (rule coherentNoise_safe)
qed

lemma grainCell_value:
  assumes "0 < gs" "real x \<le> gs * 2 ^ 1000" "real y \<le> gs * 2 ^ 1000"
  shows "grainCell gs x y =
     Some (applyFilmCurve
       ((generateCoherentNoise (real x / gs) (real y / gs)
         + generateCoherentNoise (real x / (2 * gs)) (real y / (2 * gs)) * (1 / 2)
         + generateCoherentNoise (real x / (4 * gs)) (real y / (4 * gs)) * (1 / 3)) / 3))"
proof -
  have n1: "coherentNoise (jsdiv (real x) gs) (jsdiv (real y) gs)
      = Some (generateCoherentNoise (real x / gs) (real y / gs))"
    using assms by (rule noise_call_safe)
  have n2: "coherentNoise (jsdiv (real x) (2 * gs)) (jsdiv (real y) (2 * gs))
      = Some (generateCoherentNoise (real x / (2 * gs)) (real y / (2 * gs)))"
    using assms by (intro noise_call_safe) simp_all
  have n4: "coherentNoise (jsdiv (real x) (4 * gs)) (jsdiv (real y) (4 * gs))
      = Some (generateCoherentNoise (real x / (4 * gs)) (real y / (4 * gs)))"
    using assms by (intro noise_call_safe) simp_all
  show ?thesis
    by (simp add: grainCell_def scales_def bandStep_def upt_rec n1 n2 n4 lift2_def nadd_def
        nmul_def Let_def)
qed

lemma grainCell_NaN: "grainCell 0 x y = None"
  by (simp add: grainCell_def scales_def bandStep_def upt_rec jsdiv_def coherentNoise_def
      lift2_def nadd_def nmul_def Let_def)

lemma grainCell_overflow:
  assumes "0 < gs" "gs * dblOverflow \<le> real x"
  shows "grainCell gs x y = None"
proof -
  have "dblOverflow \<le> \<bar>real x / gs\<bar>"
    using assms by (simp add: field_simps)
  then have "jsdiv (real x) gs = None"
    by (simp add: jsdiv_def)
  then show ?thesis
    by (simp add: grainCell_def scales_def bandStep_def upt_rec coherentNoise_def
        lift2_def nadd_def nmul_def Let_def)
qed

lemma applyFilmCurve_bounds: "- 0.5 < applyFilmCurve v \<and> applyFilmCurve v < 0.5"
  using tanh_real_lt_1 [of "v * 2"] tanh_real_gt_neg1 [of "v * 2"]
  by (simp add: applyFilmCurve_def)

lemma grainCell_bounds: "grainCell gs x y = Some v \<Longrightarrow> - 0.5 < v \<and> v < 0.5"
  using applyFilmCurve_bounds by (auto simp: grainCell_def Let_def)

text \<open>
  C2. The coherent synthesis returns the same grid whatever the world it runs in, and
  leaves the world as it was: it draws no random number and keeps no state.
\<close>

theorem synthesis_deterministic:
  "fst (generateMonochromaticGrain w h s wd1) = fst (generateMonochromaticGrain w h s wd2)
   \<and> snd (generateMonochromaticGrain w h s wd1) = wd1"
  by (simp add: generateMonochromaticGrain_eq)

text \<open>The fast generator is different: its grid is made of the values \<open>Math.random()\<close> returns.\<close>

lemma optimized_grain_uses_random:
  "fst (generateOptimizedGrain 1 1 1 world0) = [[Some (- 1 / 2)]]
   \<and> fst (generateOptimizedGrain 1 1 1 \<lparr>draws = (\<lambda>n. 1 / 2), drawn = 0\<rparr>) = [[Some 0]]
   \<and> drawn (snd (generateOptimizedGrain 1 1 1 world0)) = 3"
  by (simp add: generateOptimizedGrain_def fillGrid_def random_def world0_def)

text \<open>
  C10, as the code has it. With a positive grain size that is not tiny for the image
  (\<open>width\<close> and \<open>height\<close> at most \<open>2 ^ 1000\<close> times the grain size, so that neither
  \<open>x / scale\<close> nor the argument of the hash overflows), the grid has \<open>height\<close> rows of
  \<open>width\<close> cells, and every cell is a number strictly between \<open>-0.5\<close> and \<open>0.5\<close>.
\<close>

theorem grain_within_half:
  assumes "0 < gs" and "real width \<le> gs * 2 ^ 1000" and "real height \<le> gs * 2 ^ 1000"
  shows "length (fst (generateMonochromaticGrain width height gs wd)) = height
     \<and> (\<forall>row \<in> set (fst (generateMonochromaticGrain width height gs wd)).
           length row = width
           \<and> (\<forall>c \<in> set row. \<exists>v. c = Some v \<and> - 0.5 < v \<and> v < 0.5))"
proof -
  have "\<exists>v. grainCell gs x y = Some v \<and> - 0.5 < v \<and> v < 0.5"
    if "x < width" "y < height" for x y
  proof -
    from that assms(2,3) have "real x \<le> gs * 2 ^ 1000" "real y \<le> gs * 2 ^ 1000"
      by simp_all
    from grainCell_value [OF assms(1) this] grainCell_bounds [of gs x y]
    show ?thesis by simp
  qed
  then show ?thesis
    by (auto simp: generateMonochromaticGrain_eq)
qed

theorem grain_within_half_witness:
  "(0::real) < 1 \<and> real (2::nat) \<le> 1 * 2 ^ 1000 \<and> real (1::nat) \<le> 1 * 2 ^ 1000
   \<and> (\<exists>v. fst (generateMonochromaticGrain 2 1 1 world0) ! 0 ! 1 = Some v
          \<and> - 0.5 < v \<and> v < 0.5)"
proof -
  let ?g = "fst (generateMonochromaticGrain 2 1 1 world0)"
  have row: "?g ! 0 \<in> set ?g" and cell: "?g ! 0 ! 1 \<in> set (?g ! 0)"
    by (simp_all add: generateMonochromaticGrain_eq upt_rec)
  have pos: "(0::real) < 1"
    by simp
  have one: "(1::real) \<le> 2 ^ 1000"
    by (rule one_le_power) simp
  have "(2::real) = 2 ^ 1" by simp
  also have "\<dots> \<le> 2 ^ 1000" by (rule power_increasing) simp_all
  finally have w: "real (2::nat) \<le> 1 * 2 ^ 1000" by simp
  from one have h: "real (1::nat) \<le> 1 * 2 ^ 1000" by simp
  have "\<forall>row \<in> set ?g. length row = 2
          \<and> (\<forall>c \<in> set row. \<exists>v. c = Some v \<and> - 0.5 < v \<and> v < 0.5)"
    using grain_within_half [OF pos w h, of world0]
    by (rule conjunct2)
  with row have "\<forall>c \<in> set (?g ! 0). \<exists>v. c = Some v \<and> - 0.5 < v \<and> v < 0.5"
    by blast
  with cell have "\<exists>v. ?g ! 0 ! 1 = Some v \<and> - 0.5 < v \<and> v < 0.5"
    by blast
  with pos w h show ?thesis
    by blast
qed

text \<open>
  C10 as stated fails for a tiny positive grain size: \<open>1 / scale\<close> overflows and the cell
  is NaN.
\<close>

theorem grain_overflow_counterexample:
  "(0::real) < 1 / 10 ^ 310
   \<and> fst (generateMonochromaticGrain 2 1 (1 / 10 ^ 310) world0) ! 0 ! 1 = None"
proof -
  have pos: "(0::real) < 1 / 10 ^ 310"
    by simp
  have "(1::real) / 10 ^ 310 * 10 ^ 309 \<le> 1"
    by (simp add: field_simps)
  moreover have "(1::real) / 10 ^ 310 * dblOverflow \<le> 1 / 10 ^ 310 * 10 ^ 309"
    using dblOverflow_upper by (intro mult_left_mono) simp_all
  ultimately have "(1::real) / 10 ^ 310 * dblOverflow \<le> real (1::nat)"
    by simp
  with pos have "grainCell (1 / 10 ^ 310) 1 0 = None"
    by (rule grainCell_overflow)
  then have "fst (generateMonochromaticGrain 2 1 (1 / 10 ^ 310) world0) ! 0 ! 1 = None"
    by (simp add: generateMonochromaticGrain_eq upt_rec)
  with pos show ?thesis
    by (rule conjI)
qed

section \<open>Properties of the compositing loop\<close>

lemma length_grainPixel [simp]: "length (grainPixel lum grain gi w y x d) = length d"
  by (simp add: grainPixel_def store_def Let_def)

lemma grainPixel_nth:
  "j < length d \<Longrightarrow>
   grainPixel lum grain gi w y x d ! j
     = (if j = (y * w + x) * 4 \<or> j = (y * w + x) * 4 + 1 \<or> j = (y * w + x) * 4 + 2
        then grainStore (d ! j) (gvOf lum grain gi y x)
        else d ! j)"
  unfolding grainPixel_def store_def rd_def Let_def grainStore_def gvOf_def
  by (simp add: nth_list_update)

lemma grainPixel_rgb:
  assumes "c < 3" "4 * p + c < length d"
  shows "grainPixel lum grain gi w y x d ! (4 * p + c)
     = (if p = y * w + x then grainStore (d ! (4 * p + c)) (gvOf lum grain gi y x)
        else d ! (4 * p + c))"
proof -
  have "(4 * p + c = (y * w + x) * 4 \<or> 4 * p + c = (y * w + x) * 4 + 1
         \<or> 4 * p + c = (y * w + x) * 4 + 2) \<longleftrightarrow> p = y * w + x"
    using assms(1) by presburger
  then show ?thesis
    using grainPixel_nth [OF assms(2), of lum grain gi w y x] by simp
qed

lemma grainPixel_alpha:
  "grainPixel lum grain gi w y x d ! (4 * p + 3) = d ! (4 * p + 3)"
proof -
  have "4 * p + 3 \<noteq> (y * w + x) * 4" "4 * p + 3 \<noteq> (y * w + x) * 4 + 1"
    "4 * p + 3 \<noteq> (y * w + x) * 4 + 2"
    by presburger+
  then show ?thesis
    by (simp add: grainPixel_def store_def Let_def)
qed

lemma row_rgb:
  "c < 3 \<Longrightarrow> 4 * p + c < length d \<Longrightarrow>
   fold (grainPixel lum grain gi w y) [0..<n] d ! (4 * p + c)
     = (if y * w \<le> p \<and> p < y * w + n
        then grainStore (d ! (4 * p + c)) (gvOf lum grain gi y (p - y * w))
        else d ! (4 * p + c))"
proof (induction n)
  case 0
  then show ?case by simp
next
  case (Suc n)
  have len: "length (fold (grainPixel lum grain gi w y) [0..<n] d) = length d"
    by (induction n) simp_all
  show ?case
    using Suc by (auto simp: grainPixel_rgb len)
qed

lemma length_row [simp]: "length (fold (grainPixel lum grain gi w y) [0..<n] d) = length d"
  by (induction n) simp_all

lemma row_alpha:
  "fold (grainPixel lum grain gi w y) [0..<n] d ! (4 * p + 3) = d ! (4 * p + 3)"
  by (induction n) (simp_all add: grainPixel_alpha)

lemma length_rows [simp]:
  "length (fold (\<lambda>y. fold (grainPixel lum grain gi w y) [0..<w]) [0..<m] d) = length d"
  by (induction m) simp_all

lemma rows_alpha:
  "fold (\<lambda>y. fold (grainPixel lum grain gi w y) [0..<w]) [0..<m] d ! (4 * p + 3) = d ! (4 * p + 3)"
  by (induction m) (simp_all add: row_alpha)

lemma rows_rgb:
  "c < 3 \<Longrightarrow> 4 * p + c < length d \<Longrightarrow>
   fold (\<lambda>y. fold (grainPixel lum grain gi w y) [0..<w]) [0..<m] d ! (4 * p + c)
     = (if p < m * w
        then grainStore (d ! (4 * p + c)) (gvOf lum grain gi (p div w) (p mod w))
        else d ! (4 * p + c))"
proof (induction m)
  case 0
  then show ?case by simp
next
  case (Suc m)
  have dm: "p div w = m \<and> p mod w = p - m * w" if "m * w \<le> p" "p < m * w + w"
  proof -
    from that have "p = m * w + (p - m * w)" "p - m * w < w" by simp_all
    then show ?thesis
      by (metis add.commute div_mult_self3 mod_mult_self3 div_less mod_less add_0 less_nat_zero_code mult_0_right not_gr_zero)
  qed
  show ?case
    using Suc dm by (auto simp: row_rgb)
qed

section \<open>Bounds for concrete runs\<close>

lemma gradientDot_origin: "gradientDot 0 0 x y = x"
  by (simp add: gradientDot_def)

lemma gradientDot_cos: "\<exists>g. - 1 \<le> g \<and> g \<le> 1 \<and> (\<forall>x. gradientDot ix iy x 0 = g * x)"
  by (rule exI [of _ "fst (spec_gradient ix iy)"]) (simp add: gradientDot_spec spec_gradient_def)

lemma noise_1_0: "generateCoherentNoise 1 0 = 0"
  by (simp add: generateCoherentNoise_def Let_def fade_def lerp_def gradientDot_def)

lemma noise_half_0: "0 \<le> generateCoherentNoise (1 / 2) 0"
proof -
  obtain g where g: "- 1 \<le> g" "g \<le> 1" "\<forall>x. gradientDot 1 0 x 0 = g * x"
    using gradientDot_cos by blast
  have "generateCoherentNoise (1 / 2) 0 = 1 / 2 + 1 / 2 * (g * (- 1 / 2) - 1 / 2)"
    by (simp add: generateCoherentNoise_def Let_def fade_def lerp_def gradientDot_origin g(3))
  with g show ?thesis by argo
qed

lemma noise_quarter_0: "75 / 512 \<le> generateCoherentNoise (1 / 4) 0"
proof -
  obtain g where g: "- 1 \<le> g" "g \<le> 1" "\<forall>x. gradientDot 1 0 x 0 = g * x"
    using gradientDot_cos by blast
  have "generateCoherentNoise (1 / 4) 0 = 1 / 4 + 53 / 512 * (g * (- 3 / 4) - 1 / 4)"
    by (simp add: generateCoherentNoise_def Let_def fade_def lerp_def gradientDot_origin g(3))
  with g show ?thesis by argo
qed

lemma tanh_alt: "tanh (x::real) = (exp (2 * x) - 1) / (exp (2 * x) + 1)"
proof -
  define E where "E = exp (2 * x)"
  have E: "0 < E" by (simp add: E_def)
  have "exp (- 2 * x) = 1 / E"
    by (simp add: E_def exp_minus inverse_eq_divide)
  then have "tanh x = (1 - 1 / E) / (1 + 1 / E)"
    by (simp add: tanh_real_altdef)
  also have "\<dots> = ((E - 1) / E) / ((E + 1) / E)"
    using E by (simp add: field_simps)
  also have "\<dots> = (E - 1) / (E + 1)"
    using E by simp
  finally show ?thesis by (simp add: E_def)
qed

lemma tanh_lower: 
  assumes  "0 \<le> x" shows "x / (1 + x) \<le> tanh (x::real)"
proof -
  have e: "1 + 2 * x \<le> exp (2 * x)" 
    using exp_ge_add_one_self [of "2 * x"] by simp
  define E where "E = exp (2 * x)"
  have "x / (1 + x) \<le> (E - 1) / (E + 1)"
    using assms e unfolding E_def[symmetric]
    by (simp add: field_simps)
  then show ?thesis by (simp add: tanh_alt E_def)
qed

section \<open>Properties of the compositing stage\<close>

lemma applyNaturalGrain_world [simp]: "snd (applyNaturalGrain d w h st wd) = wd"
  by (simp add: applyNaturalGrain_def createLuminanceMap_eq generateMonochromaticGrain_eq Let_def)

lemma length_applyNaturalGrain [simp]: "length (fst (applyNaturalGrain d w h st wd)) = length d"
  by (simp add: applyNaturalGrain_def createLuminanceMap_eq generateMonochromaticGrain_eq Let_def)

lemma applyNaturalGrain_alpha:
  "fst (applyNaturalGrain d w h st wd) ! (4 * p + 3) = d ! (4 * p + 3)"
  by (simp add: applyNaturalGrain_def createLuminanceMap_eq generateMonochromaticGrain_eq Let_def
      rows_alpha)

lemma gvOf_tables:
  assumes "p < h * w"
  shows "gvOf (map (\<lambda>y. map (\<lambda>x. luminanceAt d w x y) [0..<w]) [0..<h])
           (map (\<lambda>y. map (\<lambda>x. grainCell (grainSize st * size_iso (getIsoParameters (iso st))) x y) [0..<w]) [0..<h])
           (strength st * intensity (getIsoParameters (iso st))) (p div w) (p mod w)
         = grainValueAt d w st (p mod w) (p div w)"
proof -
  from assms have w: "0 < w" by (cases w) simp_all
  then have "p mod w < w" by simp
  moreover from assms w have "p div w < h"
    by (simp add: less_mult_imp_div_less)
  ultimately show ?thesis
    by (simp add: gvOf_def grainValueAt_def)
qed

lemma applyNaturalGrain_rgb:
  assumes "c < 3" "4 * p + c < length d"
  shows "fst (applyNaturalGrain d w h st wd) ! (4 * p + c)
     = (if p < h * w then grainStore (d ! (4 * p + c)) (grainValueAt d w st (p mod w) (p div w))
        else d ! (4 * p + c))"
  using assms
  by (simp add: applyNaturalGrain_def createLuminanceMap_eq generateMonochromaticGrain_eq Let_def
      rows_rgb gvOf_tables)

lemma toUint8Clamp_range: "0 \<le> toUint8Clamp v \<and> toUint8Clamp v \<le> 255"
proof (cases v)
  case None
  then show ?thesis by (simp add: toUint8Clamp_def)
next
  case (Some r)
  have "0 \<le> \<lfloor>r\<rfloor> \<and> \<lfloor>r\<rfloor> + 1 \<le> 255" if "0 < r" "r < 255"
    using that by (simp add: floor_less_iff) linarith?
  then show ?thesis using Some by (auto simp: toUint8Clamp_def Let_def)
qed

lemma grainStore_range: "0 \<le> grainStore old gv \<and> grainStore old gv \<le> 255"
  unfolding grainStore_def by (rule toUint8Clamp_range)

lemma grainStore_NaN: "grainStore old None = 0"
  by (simp add: grainStore_def nadd_def lift2_def clamp_def toUint8Clamp_def)

lemma grainStore_high: "255 \<le> of_int old + g \<Longrightarrow> grainStore old (Some g) = 255"
  by (simp add: grainStore_def nadd_def lift2_def clamp_def toUint8Clamp_def)

lemma grainStore_low: "of_int old + g \<le> 0 \<Longrightarrow> grainStore old (Some g) = 0"
  by (simp add: grainStore_def nadd_def lift2_def clamp_def toUint8Clamp_def)

lemma toUint8Clamp_ge_1:
  assumes "1 / 2 < r"
  shows "1 \<le> toUint8Clamp (Some r)"
proof -
  have f: "0 \<le> \<lfloor>r\<rfloor>"
    using assms by simp
  have "1 \<le> \<lfloor>r\<rfloor>" if "\<not> 1 / 2 < r - of_int \<lfloor>r\<rfloor>"
  proof (rule ccontr)
    assume "\<not> 1 \<le> \<lfloor>r\<rfloor>"
    with f have "\<lfloor>r\<rfloor> = 0" by linarith
    with that assms show False by simp
  qed
  then show ?thesis
    using f assms by (auto simp: toUint8Clamp_def Let_def)
qed

lemma grainStore_ge_1: "1 / 2 < of_int old + g \<Longrightarrow> 1 \<le> grainStore old (Some g)"
  unfolding grainStore_def nadd_def lift2_def clamp_def
  by (simp del: max_less_iff_conj) (rule toUint8Clamp_ge_1, simp)

lemma toUint8Clamp_round:
  assumes "0 \<le> r" "r \<le> 255" "r - of_int \<lfloor>r\<rfloor> \<noteq> 1 / 2"
  shows "toUint8Clamp (Some r) = round r"
proof -
  have lo: "round r = \<lfloor>r\<rfloor>" if "r - of_int \<lfloor>r\<rfloor> < 1 / 2"
    using that unfolding round_def by linarith
  have hi: "round r = \<lfloor>r\<rfloor> + 1" if "1 / 2 < r - of_int \<lfloor>r\<rfloor>"
    using that unfolding round_def by linarith
  have z: "round r = 0" if "r \<le> 0"
    using that assms(1) by simp
  have m: "round r = 255" if "255 \<le> r"
  proof -
    from that assms(2) have "r = 255" by simp
    then show ?thesis by simp
  qed
  show ?thesis
    using assms(3) lo hi z m by (auto simp: toUint8Clamp_def Let_def)
qed

lemma grainStore_round:
  assumes "0 \<le> of_int old + g" "of_int old + g \<le> 255" "frac g \<noteq> 1 / 2"
  shows "grainStore old (Some g) = old + round g"
proof -
  define r where "r = of_int old + g"
  have fl: "\<lfloor>r\<rfloor> = old + \<lfloor>g\<rfloor>"
    unfolding r_def by simp
  have "r - of_int \<lfloor>r\<rfloor> = frac g"
    unfolding fl by (simp add: r_def frac_def)
  with assms(3) have nt: "r - of_int \<lfloor>r\<rfloor> \<noteq> 1 / 2"
    by simp
  have "round r = old + round g"
    unfolding r_def round_def by (simp add: add.assoc)
  moreover have "grainStore old (Some g) = toUint8Clamp (Some r)"
    using assms(1,2) by (simp add: grainStore_def nadd_def lift2_def clamp_def r_def)
  ultimately show ?thesis
    using toUint8Clamp_round [of r] assms(1,2) nt by (simp add: r_def)
qed

lemma cell_1_0: "\<exists>v. grainCell 1 1 0 = Some v \<and> 25 / 1586 \<le> v"
proof -
  define raw where "raw = (generateCoherentNoise 1 0 + generateCoherentNoise (1 / 2) 0 * (1 / 2)
         + generateCoherentNoise (1 / 4) 0 * (1 / 3)) / 3"
  have c: "grainCell 1 1 0 = Some (applyFilmCurve raw)"
    using grainCell_value [of 1 1 0] by (simp add: raw_def)
  have "25 / 1536 \<le> raw"
    using noise_half_0 noise_quarter_0 by (simp add: raw_def noise_1_0)
  then have r2: "25 / 768 \<le> raw * 2" by simp
  have "(25 / 768) / (1 + 25 / 768) \<le> tanh (25 / 768 :: real)"
    by (rule tanh_lower) simp
  also have "\<dots> \<le> tanh (raw * 2)"
    using r2 by simp
  finally have "25 / 1586 \<le> applyFilmCurve raw"
    by (simp add: applyFilmCurve_def)
  with c show ?thesis by blast
qed

lemma adaptive_lower:
  assumes "0 \<le> gi"
  shows "\<exists>a. getAdaptiveStrength (Some l) gi = Some a
     \<and> gi * (0.4 + 0.6 * (1 - (l - 0.5) ^ 2 / 0.18)) \<le> a"
proof -
  have "1 + (- ((l - 0.5) ^ 2) / 0.18) \<le> exp (- ((l - 0.5) ^ 2) / 0.18)"
    by (rule exp_ge_add_one_self)
  then have "0.4 + 0.6 * (1 - (l - 0.5) ^ 2 / 0.18) \<le> 0.4 + 0.6 * exp (- ((l - 0.5) ^ 2) / 0.18)"
    by simp
  then have "gi * (0.4 + 0.6 * (1 - (l - 0.5) ^ 2 / 0.18)) \<le> gi * (0.4 + 0.6 * exp (- ((l - 0.5) ^ 2) / 0.18))"
    using assms by (rule mult_left_mono)
  then show ?thesis
    by (simp add: getAdaptiveStrength_def Let_def)
qed

lemma getIso800: "getIsoParameters ''800'' = params800"
  by (simp add: getIsoParameters_def params_def)

lemma lum_red: "luminanceAt (red_row @ rest) 2 (Suc 0) 0 = Some (299 / 1000)"
  by (simp add: luminanceAt_def red_row_def rd_def nmul_def nadd_def lift2_def Let_def)

lemma gv_red:
  assumes "0 \<le> s"
  shows "\<exists>g. grainValueAt (red_row @ rest) 2 (settings800 s) 1 0 = Some g \<and> s * (43 / 50) \<le> g"
proof -
  obtain v where v: "grainCell 1 1 0 = Some v" "25 / 1586 \<le> v"
    using cell_1_0 by blast
  have gi: "0 \<le> s * (1 / 4)" using assms by simp
  obtain a where a: "getAdaptiveStrength (Some (299 / 1000)) (s * (1 / 4)) = Some a"
      "s * (1 / 4) * (0.4 + 0.6 * (1 - (299 / 1000 - 0.5) ^ 2 / 0.18)) \<le> a"
    using adaptive_lower [OF gi, of "299 / 1000"] by blast
  have a': "s * (216 / 1000) \<le> a"
    using a(2) assms by (simp add: power2_eq_square field_simps)
  have eq: "grainValueAt (red_row @ rest) 2 (settings800 s) 1 0 = Some (v * a * 255)"
    using v(1) a(1)
    by (simp add: grainValueAt_def settings800_def getIso800 params800_def lum_red nmul_def lift2_def)
  have "25 / 1586 * (s * (216 / 1000)) \<le> v * a"
    using v(2) a' assms by (intro mult_mono) simp_all
  then have "s * (43 / 50) \<le> v * a * 255"
    using assms by (simp add: field_simps)
  with eq show ?thesis by blast
qed


lemma adaptive_upper:
  assumes "0 \<le> gi"
  shows "\<exists>a. getAdaptiveStrength (Some l) gi = Some a \<and> gi * (2 / 5) \<le> a \<and> a \<le> gi"
proof -
  define k where "k = 0.4 + 0.6 * exp (- ((l - 0.5) ^ 2) / 0.18)"
  have "0 < exp (- ((l - 0.5) ^ 2) / 0.18)" "exp (- ((l - 0.5) ^ 2) / 0.18) \<le> 1"
    by simp_all
  then have k: "2 / 5 \<le> k" "k \<le> 1"
    unfolding k_def by linarith+
  have "gi * (2 / 5) \<le> gi * k" "gi * k \<le> gi * 1"
    using mult_left_mono [OF k(1) assms] mult_left_mono [OF k(2) assms] by simp_all
  moreover have "getAdaptiveStrength (Some l) gi = Some (gi * k)"
    by (simp add: getAdaptiveStrength_def Let_def k_def)
  ultimately show ?thesis
    by simp
qed

lemma cell_upper: "grainCell gs x y = Some v \<Longrightarrow> v < 1 / 2"
  using grainCell_bounds [of gs x y v] by simp

lemma lum_mixed: "luminanceAt mixed_row 2 (Suc 0) 0 = Some (563 / 1020)"
  by (simp add: luminanceAt_def mixed_row_def rd_def nmul_def nadd_def lift2_def Let_def)

lemma gv_mixed:
  "\<exists>g. grainValueAt mixed_row 2 (settings800 1) 1 0 = Some g \<and> 2 / 5 \<le> g \<and> g \<le> 32"
proof -
  obtain v where v: "grainCell 1 1 0 = Some v" "25 / 1586 \<le> v"
    using cell_1_0 by blast
  have v': "v < 1 / 2"
    using v(1) by (rule cell_upper)
  have gi: "(0::real) \<le> 1 / 4" by simp
  obtain a where a: "getAdaptiveStrength (Some (563 / 1020)) (1 / 4) = Some a"
      "1 / 4 * (2 / 5) \<le> a" "a \<le> 1 / 4"
    using adaptive_upper [OF gi, of "563 / 1020"] by blast
  have eq: "grainValueAt mixed_row 2 (settings800 1) 1 0 = Some (v * a * 255)"
    using v(1) a(1)
    by (simp add: grainValueAt_def settings800_def getIso800 params800_def lum_mixed nmul_def
        lift2_def)
  have "25 / 1586 * (1 / 4 * (2 / 5)) \<le> v * a"
    using v(2) a(2) by (intro mult_mono) simp_all
  moreover have "v * a \<le> 1 / 2 * (1 / 4)"
    using v' v(2) a(2,3) by (intro mult_mono) simp_all
  ultimately have "2 / 5 \<le> v * a * 255" "v * a * 255 \<le> 32"
    by simp_all
  with eq show ?thesis by blast
qed

lemma toUint8Clamp_near:
  assumes "0 \<le> r" "r \<le> 255"
  shows "\<bar>of_int (toUint8Clamp (Some r)) - r\<bar> \<le> 1 / 2"
proof -
  define f where "f = \<lfloor>r\<rfloor>"
  have fb: "of_int f \<le> r" "r < of_int f + 1"
    unfolding f_def by linarith+
  consider "r = 0" | "r = 255" | "0 < r" "r < 255"
    using assms by linarith
  then show ?thesis
  proof cases
    case 1
    then show ?thesis by (simp add: toUint8Clamp_def)
  next
    case 2
    then show ?thesis by (simp add: toUint8Clamp_def)
  next
    case 3
    then have "toUint8Clamp (Some r)
        = (if r - of_int f < 1 / 2 then f
           else if 1 / 2 < r - of_int f then f + 1
           else if even f then f else f + 1)"
      by (simp add: toUint8Clamp_def f_def Let_def)
    then show ?thesis
      using fb by (simp add: abs_if split: if_splits)
  qed
qed

lemma grainStore_near:
  assumes "0 \<le> of_int old + g" "of_int old + g \<le> 255"
  shows "\<bar>of_int (grainStore old (Some g) - old) - g\<bar> \<le> 1 / 2"
proof -
  have "grainStore old (Some g) = toUint8Clamp (Some (of_int old + g))"
    using assms by (simp add: grainStore_def nadd_def lift2_def clamp_def)
  then show ?thesis
    using toUint8Clamp_near [OF assms] by (simp add: algebra_simps)
qed

lemma grainStore_inside:
  assumes "0 < grainStore old gv" "grainStore old gv < 255"
  shows "\<exists>g. gv = Some g \<and> 0 \<le> of_int old + g \<and> of_int old + g \<le> 255"
proof (cases gv)
  case None
  with assms(1) show ?thesis by (simp add: grainStore_NaN)
next
  case (Some g)
  have "0 \<le> of_int old + g"
  proof (rule ccontr)
    assume "\<not> 0 \<le> of_int old + g"
    then have "grainStore old (Some g) = 0" by (intro grainStore_low) simp
    with assms(1) Some show False by simp
  qed
  moreover have "of_int old + g \<le> 255"
  proof (rule ccontr)
    assume "\<not> of_int old + g \<le> 255"
    then have "grainStore old (Some g) = 255" by (intro grainStore_high) simp
    with assms(2) Some show False by simp
  qed
  ultimately show ?thesis using Some by simp
qed

lemma grainStore_deltas_close:
  assumes "0 < grainStore a gv" "grainStore a gv < 255"
    and "0 < grainStore b gv" "grainStore b gv < 255"
  shows "\<bar>(grainStore a gv - a) - (grainStore b gv - b)\<bar> \<le> 1"
proof -
  obtain g where g: "gv = Some g" "0 \<le> of_int a + g" "of_int a + g \<le> 255"
    using grainStore_inside [OF assms(1,2)] by blast
  obtain g' where g': "gv = Some g'" "0 \<le> of_int b + g'" "of_int b + g' \<le> 255"
    using grainStore_inside [OF assms(3,4)] by blast
  from g(1) g'(1) have same: "g' = g" by simp
  have "\<bar>of_int (grainStore a (Some g) - a) - g\<bar> \<le> 1 / 2"
    using g(2,3) by (rule grainStore_near)
  then have n: "\<bar>real_of_int (grainStore a (Some g)) - real_of_int a - g\<bar> \<le> 1 / 2"
    by simp
  have "\<bar>of_int (grainStore b (Some g) - b) - g\<bar> \<le> 1 / 2"
    using g'(2,3) unfolding same by (rule grainStore_near)
  then have n': "\<bar>real_of_int (grainStore b (Some g)) - real_of_int b - g\<bar> \<le> 1 / 2"
    by simp
  from n n' have "\<bar>real_of_int (grainStore a (Some g)) - real_of_int a
      - (real_of_int (grainStore b (Some g)) - real_of_int b)\<bar> \<le> 1"
    by linarith
  then have "real_of_int \<bar>(grainStore a (Some g) - a) - (grainStore b (Some g) - b)\<bar> \<le> real_of_int 1"
    by simp
  then have "\<bar>(grainStore a (Some g) - a) - (grainStore b (Some g) - b)\<bar> \<le> 1"
    by (simp only: of_int_le_iff)
  then show ?thesis
    by (simp only: g(1))
qed

lemma toUint8Clamp_mono:
  assumes "r \<le> r'"
  shows "toUint8Clamp (Some r) \<le> toUint8Clamp (Some r')"
proof -
  consider "r \<le> 0" | "255 \<le> r'" | "0 < r" "r' < 255"
    by linarith
  then show ?thesis
  proof cases
    case 1
    then have "toUint8Clamp (Some r) = 0" by (simp add: toUint8Clamp_def)
    with toUint8Clamp_range [of "Some r'"] show ?thesis by simp
  next
    case 2
    then have "toUint8Clamp (Some r') = 255" by (simp add: toUint8Clamp_def)
    with toUint8Clamp_range [of "Some r"] show ?thesis by simp
  next
    case 3
    define f where "f = \<lfloor>r\<rfloor>"
    define f' where "f' = \<lfloor>r'\<rfloor>"
    have ff: "f \<le> f'"
      unfolding f_def f'_def using assms by (rule floor_mono)
    have fb: "of_int f \<le> r" "r < of_int f + 1" "of_int f' \<le> r'" "r' < of_int f' + 1"
      unfolding f_def f'_def by linarith+
    from 3 assms have in_r: "0 < r" "r < 255" and in_r': "0 < r'" "r' < 255"
      by linarith+
    have o: "toUint8Clamp (Some r)
        = (if r - of_int f < 1 / 2 then f
           else if 1 / 2 < r - of_int f then f + 1
           else if even f then f else f + 1)"
      using in_r by (simp add: toUint8Clamp_def f_def Let_def)
    have o': "toUint8Clamp (Some r')
        = (if r' - of_int f' < 1 / 2 then f'
           else if 1 / 2 < r' - of_int f' then f' + 1
           else if even f' then f' else f' + 1)"
      using in_r' by (simp add: toUint8Clamp_def f'_def Let_def)
    show ?thesis
    proof (cases "f = f'")
      case True
      then show ?thesis
        unfolding o o' using assms by (auto split: if_splits)
    next
      case False
      with ff have "f + 1 \<le> f'" by simp
      moreover have "toUint8Clamp (Some r) \<le> f + 1"
        unfolding o by simp
      moreover have "f' \<le> toUint8Clamp (Some r')"
        unfolding o' by simp
      ultimately show ?thesis by linarith
    qed
  qed
qed

lemma grainStore_mono:
  assumes "a \<le> b"
  shows "grainStore a gv \<le> grainStore b gv"
proof (cases gv)
  case None
  then show ?thesis by (simp add: grainStore_NaN)
next
  case (Some g)
  have "max 0 (min 255 (of_int a + g)) \<le> max 0 (min 255 (of_int b + g))"
    using assms by (simp add: max_def min_def)
  then show ?thesis
    unfolding Some grainStore_def nadd_def lift2_def clamp_def
    by (simp del: max_less_iff_conj) (rule toUint8Clamp_mono, simp)
qed

text \<open>
  C1, as the code has it. R, G and B of a pixel inside the image each become the byte
  conversion of \<open>clamp (old + grainValue)\<close> for one and the same \<open>grainValue\<close>. So two
  channels with equal input get equal output, a channel with a smaller input never gets a
  larger output, and two channels whose outputs both lie strictly between 0 and 255 (neither
  is saturated) change by amounts that differ by at most 1. The three statements do not
  depend on how the sum is rounded before the store.
\<close>

theorem monochrome_up_to_rounding:
  assumes "p < width * height" and "4 * p + 2 < length data" and "c < 3" and "c' < 3"
  shows "(data ! (4 * p + c) = data ! (4 * p + c')
          \<longrightarrow> fst (applyNaturalGrain data width height st wd) ! (4 * p + c)
              = fst (applyNaturalGrain data width height st wd) ! (4 * p + c'))
     \<and> (data ! (4 * p + c) \<le> data ! (4 * p + c')
          \<longrightarrow> fst (applyNaturalGrain data width height st wd) ! (4 * p + c)
              \<le> fst (applyNaturalGrain data width height st wd) ! (4 * p + c'))
     \<and> (0 < fst (applyNaturalGrain data width height st wd) ! (4 * p + c)
        \<and> fst (applyNaturalGrain data width height st wd) ! (4 * p + c) < 255
        \<and> 0 < fst (applyNaturalGrain data width height st wd) ! (4 * p + c')
        \<and> fst (applyNaturalGrain data width height st wd) ! (4 * p + c') < 255
          \<longrightarrow> \<bar>(fst (applyNaturalGrain data width height st wd) ! (4 * p + c)
                   - data ! (4 * p + c))
                - (fst (applyNaturalGrain data width height st wd) ! (4 * p + c')
                   - data ! (4 * p + c'))\<bar> \<le> 1)"
proof -
  let ?gv = "grainValueAt data width st (p mod width) (p div width)"
  from assms have in_c: "4 * p + c < length data" and in_c': "4 * p + c' < length data"
    and p: "p < height * width"
    by (simp_all add: mult.commute)
  have o: "fst (applyNaturalGrain data width height st wd) ! (4 * p + c)
      = grainStore (data ! (4 * p + c)) ?gv"
    using assms(3) in_c p by (simp add: applyNaturalGrain_rgb)
  have o': "fst (applyNaturalGrain data width height st wd) ! (4 * p + c')
      = grainStore (data ! (4 * p + c')) ?gv"
    using assms(4) in_c' p by (simp add: applyNaturalGrain_rgb)
  show ?thesis
    unfolding o o' using grainStore_mono grainStore_deltas_close by simp
qed

theorem monochrome_up_to_rounding_witness:
  "(1::nat) < 2 * 1 \<and> 4 * 1 + 2 < length mixed_row \<and> (0::nat) < 3 \<and> (1::nat) < 3
   \<and> mixed_row ! (4 * 1 + 0) \<le> mixed_row ! (4 * 1 + 1)
   \<and> fst (applyNaturalGrain mixed_row 2 1 (settings800 1) world0) ! (4 * 1 + 0)
       \<le> fst (applyNaturalGrain mixed_row 2 1 (settings800 1) world0) ! (4 * 1 + 1)
   \<and> 0 < fst (applyNaturalGrain mixed_row 2 1 (settings800 1) world0) ! (4 * 1 + 0)
   \<and> fst (applyNaturalGrain mixed_row 2 1 (settings800 1) world0) ! (4 * 1 + 0) < 255
   \<and> 0 < fst (applyNaturalGrain mixed_row 2 1 (settings800 1) world0) ! (4 * 1 + 1)
   \<and> fst (applyNaturalGrain mixed_row 2 1 (settings800 1) world0) ! (4 * 1 + 1) < 255
   \<and> \<bar>(fst (applyNaturalGrain mixed_row 2 1 (settings800 1) world0) ! (4 * 1 + 0)
          - mixed_row ! (4 * 1 + 0))
       - (fst (applyNaturalGrain mixed_row 2 1 (settings800 1) world0) ! (4 * 1 + 1)
          - mixed_row ! (4 * 1 + 1))\<bar> \<le> 1"
proof -
  let ?out = "fst (applyNaturalGrain mixed_row 2 1 (settings800 1) world0)"
  obtain g where g: "grainValueAt mixed_row 2 (settings800 1) 1 0 = Some g" "2 / 5 \<le> g" "g \<le> 32"
    using gv_mixed by blast
  have a: "(1::nat) < 2 * 1" "4 * 1 + 2 < length mixed_row" "(0::nat) < 3" "(1::nat) < 3"
    by (simp_all add: mixed_row_def)
  have v: "mixed_row ! (4 * 1 + 0) = 100" "mixed_row ! (4 * 1 + 1) = 150"
    by (simp_all add: mixed_row_def)
  have le: "mixed_row ! (4 * 1 + 0) \<le> mixed_row ! (4 * 1 + 1)"
    unfolding v by simp
  have o0: "?out ! (4 * 1 + 0) = grainStore 100 (Some g)"
    using g(1) by (subst applyNaturalGrain_rgb) (simp_all add: mixed_row_def)
  have o1: "?out ! (4 * 1 + 1) = grainStore 150 (Some g)"
    using g(1) by (subst applyNaturalGrain_rgb) (simp_all add: mixed_row_def)
  have "\<bar>of_int (grainStore 100 (Some g) - 100) - g\<bar> \<le> 1 / 2"
    using g(2,3) by (intro grainStore_near) simp_all
  then have "\<bar>real_of_int (grainStore 100 (Some g)) - 100 - g\<bar> \<le> 1 / 2"
    by simp
  with g(2,3) have "0 < real_of_int (grainStore 100 (Some g))"
      "real_of_int (grainStore 100 (Some g)) < 255"
    by linarith+
  then have b0: "0 < grainStore 100 (Some g)" "grainStore 100 (Some g) < 255"
    by simp_all
  have "\<bar>of_int (grainStore 150 (Some g) - 150) - g\<bar> \<le> 1 / 2"
    using g(2,3) by (intro grainStore_near) simp_all
  then have "\<bar>real_of_int (grainStore 150 (Some g)) - 150 - g\<bar> \<le> 1 / 2"
    by simp
  with g(2,3) have "0 < real_of_int (grainStore 150 (Some g))"
      "real_of_int (grainStore 150 (Some g)) < 255"
    by linarith+
  then have b1: "0 < grainStore 150 (Some g)" "grainStore 150 (Some g) < 255"
    by simp_all
  have inside: "0 < ?out ! (4 * 1 + 0)" "?out ! (4 * 1 + 0) < 255"
      "0 < ?out ! (4 * 1 + 1)" "?out ! (4 * 1 + 1) < 255"
    unfolding o0 o1 using b0 b1 by simp_all
  from monochrome_up_to_rounding [OF a, of "settings800 1" world0] le inside
  have "?out ! (4 * 1 + 0) \<le> ?out ! (4 * 1 + 1)"
    and "\<bar>(?out ! (4 * 1 + 0) - mixed_row ! (4 * 1 + 0))
         - (?out ! (4 * 1 + 1) - mixed_row ! (4 * 1 + 1))\<bar> \<le> 1"
    by blast+
  with a le inside show ?thesis
    by blast
qed

text \<open>
  C1 as stated fails where a channel saturates: a pure red pixel at full strength keeps
  R = 255 while G goes up.
\<close>

theorem monochrome_delta_counterexample:
  "fst (applyNaturalGrain red_row 2 1 (settings800 1) world0) ! 4 - red_row ! 4
     \<noteq> fst (applyNaturalGrain red_row 2 1 (settings800 1) world0) ! 5 - red_row ! 5"
proof -
  obtain g where g: "grainValueAt (red_row @ []) 2 (settings800 1) 1 0 = Some g" "1 * (43 / 50) \<le> g"
    using gv_red [of 1 "[]"] by auto
  have "fst (applyNaturalGrain red_row 2 1 (settings800 1) world0) ! (4 * 1 + 0)
      = grainStore (red_row ! (4 * 1 + 0)) (grainValueAt red_row 2 (settings800 1) (1 mod 2) (1 div 2))"
    by (subst applyNaturalGrain_rgb) (simp_all add: red_row_def)
  then have r: "fst (applyNaturalGrain red_row 2 1 (settings800 1) world0) ! 4 = 255"
    using g by (simp add: grainStore_high red_row_def)
  have "fst (applyNaturalGrain red_row 2 1 (settings800 1) world0) ! (4 * 1 + 1)
      = grainStore (red_row ! (4 * 1 + 1)) (grainValueAt red_row 2 (settings800 1) (1 mod 2) (1 div 2))"
    by (subst applyNaturalGrain_rgb) (simp_all add: red_row_def)
  then have "1 \<le> fst (applyNaturalGrain red_row 2 1 (settings800 1) world0) ! 5"
    using g grainStore_ge_1 [of 0 g] by (simp add: red_row_def)
  with r show ?thesis
    by (simp add: red_row_def)
qed

lemma clamp_Some: "clamp (Some r) = Some (if r < 0 then 0 else if 255 < r then 255 else r)"
  by (simp add: clamp_def)

text \<open>
  C4. Every R, G and B value the stage writes for a pixel of the image lies in 0..255,
  whatever the settings: it is 255 when \<open>old + grainValue\<close> is at or above 255, it is 0
  when that sum is at or below 0, and it is 0 when the grain value is NaN.
\<close>

theorem grain_channels_clamped:
  assumes "p < width * height" and "4 * p + c < length data" and "c < 3"
  shows "0 \<le> fst (applyNaturalGrain data width height st wd) ! (4 * p + c)
     \<and> fst (applyNaturalGrain data width height st wd) ! (4 * p + c) \<le> 255
     \<and> (\<forall>g. grainValueAt data width st (p mod width) (p div width) = Some g
           \<longrightarrow> (255 \<le> of_int (data ! (4 * p + c)) + g
                 \<longrightarrow> fst (applyNaturalGrain data width height st wd) ! (4 * p + c) = 255)
             \<and> (of_int (data ! (4 * p + c)) + g \<le> 0
                 \<longrightarrow> fst (applyNaturalGrain data width height st wd) ! (4 * p + c) = 0))
     \<and> (grainValueAt data width st (p mod width) (p div width) = None
           \<longrightarrow> fst (applyNaturalGrain data width height st wd) ! (4 * p + c) = 0)"
proof -
  from assms have "p < height * width"
    by (simp add: mult.commute)
  then have "fst (applyNaturalGrain data width height st wd) ! (4 * p + c)
      = grainStore (data ! (4 * p + c)) (grainValueAt data width st (p mod width) (p div width))"
    using assms(2,3) by (simp add: applyNaturalGrain_rgb)
  then show ?thesis
    using grainStore_range grainStore_high grainStore_low grainStore_NaN by simp
qed

theorem grain_channels_clamped_witness:
  "(1::nat) < 2 * 1 \<and> 4 * 1 + 1 < length red_row \<and> (1::nat) < 3
   \<and> (\<exists>g. grainValueAt red_row 2 (settings800 1000) (1 mod 2) (1 div 2) = Some g
          \<and> 255 \<le> of_int (red_row ! (4 * 1 + 1)) + g)
   \<and> fst (applyNaturalGrain red_row 2 1 (settings800 1000) world0) ! (4 * 1 + 1) = 255"
proof -
  obtain g where g: "grainValueAt (red_row @ []) 2 (settings800 1000) 1 0 = Some g"
      "1000 * (43 / 50) \<le> g"
    using gv_red [of 1000 "[]"] by auto
  have a: "(1::nat) < 2 * 1" "4 * 1 + 1 < length red_row" "(1::nat) < 3"
    by (simp_all add: red_row_def)
  have m: "(1::nat) mod 2 = 1" "(1::nat) div 2 = 0"
    by simp_all
  have v: "red_row ! (4 * 1 + 1) = 0"
    by (simp add: red_row_def)
  have h: "255 \<le> of_int (red_row ! (4 * 1 + 1)) + g"
    using g(2) unfolding v by simp
  have gv: "grainValueAt red_row 2 (settings800 1000) (1 mod 2) (1 div 2) = Some g"
    using g(1) unfolding m by simp
  from grain_channels_clamped [OF a, of "settings800 1000" world0] gv h
  have "fst (applyNaturalGrain red_row 2 1 (settings800 1000) world0) ! (4 * 1 + 1) = 255"
    by blast
  with a gv h show ?thesis
    by blast
qed

section \<open>Properties of LUT sampling and grading\<close>

lemma store_length [simp]: "length (store d i v) = length d"
  by (simp add: store_def)

lemma lutPixel_length: "lutPixel l s i d = Inr d' \<Longrightarrow> length d' = length d"
  by (auto simp: lutPixel_def Let_def split: sum.splits)

lemma lutPixel_alpha:
  assumes "lutPixel l s (4 * k) d = Inr d'"
  shows "d' ! (4 * p + 3) = d ! (4 * p + 3)"
proof -
  have "4 * p + 3 \<noteq> 4 * k" "4 * p + 3 \<noteq> 4 * k + 1" "4 * p + 3 \<noteq> 4 * k + 2"
    by presburger+
  then show ?thesis
    using assms by (auto simp: lutPixel_def Let_def store_def split: sum.splits)
qed

lemma foldE_lutPixel:
  "foldE (lutPixel l s) (map (\<lambda>k. 4 * k) ks) d = Inr d' \<Longrightarrow>
   length d' = length d \<and> d' ! (4 * p + 3) = d ! (4 * p + 3)"
proof (induction ks arbitrary: d)
  case Nil
  then show ?case by simp
next
  case (Cons k ks)
  then obtain d1 where d1: "lutPixel l s (4 * k) d = Inr d1"
      "foldE (lutPixel l s) (map (\<lambda>k. 4 * k) ks) d1 = Inr d'"
    by (auto split: sum.splits)
  from Cons.IH [OF d1(2)] lutPixel_length [OF d1(1)] lutPixel_alpha [OF d1(1)]
  show ?case by simp
qed

lemma applyLUTTransformation_alpha:
  assumes "applyLUTTransformation img l s = Inr out"
  shows "length (data_img out) = length (data_img img)
     \<and> data_img out ! (4 * p + 3) = data_img img ! (4 * p + 3)
     \<and> width_img out = width_img img \<and> height_img out = height_img img"
  using assms foldE_lutPixel [of l s _ "data_img img" _ p]
  by (auto simp: applyLUTTransformation_def Let_def split: sum.splits)


lemma mix_zero_same: "mix a a (Some 0) = a"
  by (cases a) (simp_all add: mix_def nadd_def nsub_def nmul_def lift2_def)

lemma mixColor_same: "mixColor c c (Some 0) = c"
  by (simp add: mixColor_def mix_zero_same)

lemma mix_zero_numeric: "b \<noteq> None \<Longrightarrow> mix a b (Some 0) = a"
  by (cases a; cases b) (simp_all add: mix_def nadd_def nsub_def nmul_def lift2_def)

lemma mixColor_numeric: "numeric c2 \<Longrightarrow> mixColor c1 c2 (Some 0) = c1"
  by (simp add: mixColor_def mix_zero_numeric numeric_def)

lemma getLUTColor_in_range:
  assumes "0 \<le> i" "i < int (length (data_lut l))"
    and "z * n * n + y * n + x = i"
  shows "getLUTColor l (Some x) (Some y) (Some z) (Some n) = Some (data_lut l ! nat i)"
  using assms by (simp add: getLUTColor_def lift2_def Let_def min_def)

lemma sample_at_one:
  assumes n: "2 \<le> n" and len: "int (length (data_lut l)) = n ^ 3"
  shows "sampleLUT3D l (Some 1) (Some 1) (Some 1) (Some n) = Inr (data_lut l ! nat (n ^ 3 - 1))"
proof -
  have i: "(n - 1) * n * n + (n - 1) * n + (n - 1) = n ^ 3 - 1"
    by (simp add: power3_eq_cube algebra_simps)
  have "0 < n ^ 3" using n by simp
  then have r: "0 \<le> n ^ 3 - 1" "n ^ 3 - 1 < int (length (data_lut l))"
    using len by simp_all
  have c: "getLUTColor l (Some (n - 1)) (Some (n - 1)) (Some (n - 1)) (Some n)
      = Some (data_lut l ! nat (n ^ 3 - 1))"
    using getLUTColor_in_range [OF r i] .
  have m: "min n (n - 1) = n - 1" by simp
  show ?thesis
    by (simp add: sampleLUT3D_def Let_def lift2_def nmul_def nsub_def m c mixFetched_def
        mixColor_same)
qed

lemma sample_at_zero:
  assumes n: "2 \<le> n" and len: "int (length (data_lut l)) = n ^ 3"
    and num: "list_all numeric (data_lut l)"
  shows "sampleLUT3D l (Some 0) (Some 0) (Some 0) (Some n) = Inr (data_lut l ! 0)"
proof -
  have n2: "4 \<le> n * n" using n mult_mono [of 2 n 2 n] by simp
  have n3: "n ^ 3 = n * n * n" by (simp add: power3_eq_cube)
  have big: "n * n + n + 1 < n * n * n"
  proof -
    have "n * n * 2 \<le> n * n * n" using n by (intro mult_left_mono) simp_all
    moreover have "n + 1 < n * n"
    proof -
      have "n * 2 \<le> n * n" using n by (intro mult_left_mono) simp_all
      with n show ?thesis by linarith
    qed
    ultimately show ?thesis by simp
  qed
  have bnd: "0 \<le> z * n * n + y * n + x \<and> z * n * n + y * n + x < int (length (data_lut l))"
    if "x \<in> {0, 1}" "y \<in> {0, 1}" "z \<in> {0, 1}" for x y z
    using that n n2 big unfolding len n3 by auto
  have fetch: "getLUTColor l (Some x) (Some y) (Some z) (Some n)
      = Some (data_lut l ! nat (z * n * n + y * n + x))"
    if "x \<in> {0, 1}" "y \<in> {0, 1}" "z \<in> {0, 1}" for x y z
    using bnd [OF that] by (intro getLUTColor_in_range) simp_all
  have nm: "numeric (data_lut l ! nat (z * n * n + y * n + x))"
    if "x \<in> {0, 1}" "y \<in> {0, 1}" "z \<in> {0, 1}" for x y z
  proof -
    from bnd [OF that] have "nat (z * n * n + y * n + x) < length (data_lut l)" by linarith
    with num show ?thesis by (simp add: list_all_length)
  qed
  have m: "min 1 (n - 1) = 1" using n by simp
  show ?thesis
    using fetch [of 0 0 0] fetch [of 1 0 0] fetch [of 0 1 0] fetch [of 1 1 0]
      fetch [of 0 0 1] fetch [of 1 0 1] fetch [of 0 1 1] fetch [of 1 1 1]
      nm [of 1 0 0] nm [of 0 1 0] nm [of 1 1 0]
      nm [of 0 0 1] nm [of 1 0 1] nm [of 0 1 1] nm [of 1 1 1]
    by (simp add: sampleLUT3D_def Let_def lift2_def nmul_def nsub_def m mixFetched_def
        mixColor_numeric)
qed


text \<open>
  C6, as the code has it. For a table of edge length \<open>n \<ge> 2\<close> with \<open>n\<^sup>3\<close> entries,
  sampling at \<open>r = g = b = 1\<close> returns the entry at index \<open>n\<^sup>3 - 1\<close>, and sampling at
  \<open>r = g = b = 0\<close> returns the entry at index 0 when no entry of the table has a NaN
  channel.
\<close>

theorem corner_samples:
  assumes "2 \<le> n" and "size_lut l = Some n" and "int (length (data_lut l)) = n ^ 3"
  shows "sampleLUT3D l (Some 1) (Some 1) (Some 1) (size_lut l)
           = Inr (data_lut l ! nat (n ^ 3 - 1))
     \<and> (list_all numeric (data_lut l)
          \<longrightarrow> sampleLUT3D l (Some 0) (Some 0) (Some 0) (size_lut l) = Inr (data_lut l ! 0))"
  using assms by (simp add: sample_at_one sample_at_zero)

theorem corner_samples_witness:
  "(2::int) \<le> 2 \<and> size_lut identity2 = Some 2 \<and> int (length (data_lut identity2)) = 2 ^ 3
   \<and> list_all numeric (data_lut identity2)
   \<and> sampleLUT3D identity2 (Some 1) (Some 1) (Some 1) (size_lut identity2) = Inr (rgb 1 1 1)
   \<and> sampleLUT3D identity2 (Some 0) (Some 0) (Some 0) (size_lut identity2) = Inr (rgb 0 0 0)"
proof -
  have a: "(2::int) \<le> 2" "size_lut identity2 = Some 2"
      "int (length (data_lut identity2)) = 2 ^ 3"
    by (simp_all add: identity2_def)
  have n: "list_all numeric (data_lut identity2)"
    by (simp add: identity2_def numeric_def rgb_def)
  have "data_lut identity2 ! nat (2 ^ 3 - 1) = rgb 1 1 1" "data_lut identity2 ! 0 = rgb 0 0 0"
    by (simp_all add: identity2_def)
  with corner_samples [OF a] a n show ?thesis
    by simp
qed

lemma mix_NaN [simp]: "mix a None t = None" "mix None b t = None"
  by (cases a) (simp_all add: mix_def nadd_def nsub_def nmul_def lift2_def)

lemma nan_lut_fetch:
  assumes "x \<in> {0, 1}" "y \<in> {0, 1}" "z \<in> {0, 1}"
  shows "getLUTColor nan_lut (Some x) (Some y) (Some z) (Some 2)
      = Some (data_lut nan_lut ! nat (z * 2 * 2 + y * 2 + x))"
  using assms by (intro getLUTColor_in_range) (auto simp: nan_lut_def)

text \<open>
  C6 as stated fails for a table with a NaN channel next to the corner: the weight 0 of the
  interpolation does not remove it (\<open>NaN * 0\<close> is NaN).
\<close>

theorem corner_sample_nan_counterexample:
  "size_lut nan_lut = Some 2 \<and> int (length (data_lut nan_lut)) = 2 ^ 3
   \<and> sampleLUT3D nan_lut (Some 0) (Some 0) (Some 0) (size_lut nan_lut)
       \<noteq> Inr (data_lut nan_lut ! 0)"
proof -
  have s: "size_lut nan_lut = Some 2" and len: "int (length (data_lut nan_lut)) = 2 ^ 3"
    by (simp_all add: nan_lut_def)
  have one: "r_ch (data_lut nan_lut ! 1) = None" and zero: "r_ch (data_lut nan_lut ! 0) = Some 0"
    by (simp_all add: nan_lut_def rgb_def)
  have m: "min 1 (2 - 1) = (1::int)" by simp
  have "\<exists>c. sampleLUT3D nan_lut (Some 0) (Some 0) (Some 0) (Some 2) = Inr c \<and> r_ch c = None"
    using nan_lut_fetch [of 0 0 0] nan_lut_fetch [of 1 0 0] nan_lut_fetch [of 0 1 0]
      nan_lut_fetch [of 1 1 0] nan_lut_fetch [of 0 0 1] nan_lut_fetch [of 1 0 1]
      nan_lut_fetch [of 0 1 1] nan_lut_fetch [of 1 1 1] one
    by (simp add: sampleLUT3D_def Let_def lift2_def nmul_def nsub_def mixFetched_def
        mixColor_def)
  with zero have "sampleLUT3D nan_lut (Some 0) (Some 0) (Some 0) (Some 2)
       \<noteq> Inr (data_lut nan_lut ! 0)"
    by auto
  with s len show ?thesis by simp
qed

lemma sample_invert_zero:
  "sampleLUT3D invert2 (Some 0) (Some 0) (Some 0) (Some 2) = Inr (rgb 1 1 1)"
proof -
  have "sampleLUT3D invert2 (Some 0) (Some 0) (Some 0) (Some 2) = Inr (data_lut invert2 ! 0)"
    by (rule sample_at_zero) (simp_all add: invert2_def numeric_def rgb_def)
  then show ?thesis by (simp add: invert2_def)
qed

lemma lutPixel_black:
  "lutPixel invert2 1 0 [0, 0, 0, 77] = Inr [255, 255, 255, 77]"
proof -
  have s: "size_lut invert2 = Some 2" by (simp add: invert2_def)
  have m: "mix (Some 0) (nmul (Some 1) (Some 255)) (Some 1) = Some 255"
    by (simp add: mix_def nadd_def nsub_def nmul_def lift2_def)
  have t: "toUint8Clamp (Some 255) = 255" by (simp add: toUint8Clamp_def)
  show ?thesis
    unfolding lutPixel_def Let_def s
    by (simp add: rd_def sample_invert_zero store_def rgb_def m t)
qed

lemma grade_one_pixel:
  "applyLUTTransformation one_pixel invert2 1 = Inr (one_pixel\<lparr>data_img := [255, 255, 255, 77]\<rparr>)"
proof -
  have "[0..<(length [0, 0, 0, 77::int] + 3) div 4] = [0]" by simp
  then show ?thesis
    by (simp add: applyLUTTransformation_def one_pixel_def Let_def lutPixel_black)
qed

text \<open>
  C3. The grain stage returns a buffer of the same length with every alpha byte (index
  \<open>4 p + 3\<close>) as it was, and so does the LUT stage whenever it returns an image.
\<close>

theorem alpha_preserved:
  "fst (applyNaturalGrain d w h st wd) ! (4 * p + 3) = d ! (4 * p + 3)
   \<and> length (fst (applyNaturalGrain d w h st wd)) = length d
   \<and> (\<forall>out. applyLUTTransformation img l s = Inr out
         \<longrightarrow> length (data_img out) = length (data_img img)
           \<and> data_img out ! (4 * p + 3) = data_img img ! (4 * p + 3))"
  using applyLUTTransformation_alpha [of img l s _ p]
  by (simp add: applyNaturalGrain_alpha)

theorem alpha_preserved_witness:
  "fst (applyNaturalGrain red_row 2 1 (settings800 1) world0) ! (4 * 1 + 3) = 255
   \<and> (\<exists>out. applyLUTTransformation one_pixel invert2 1 = Inr out
          \<and> data_img out ! 0 = 255 \<and> data_img out ! (4 * 0 + 3) = 77)"
proof -
  let ?out = "one_pixel\<lparr>data_img := [255, 255, 255, 77]\<rparr>"
  have a: "data_img one_pixel ! (4 * 0 + 3) = 77" and b: "red_row ! (4 * 1 + 3) = 255"
    by (simp_all add: one_pixel_def red_row_def)
  have "fst (applyNaturalGrain red_row 2 1 (settings800 1) world0) ! (4 * 1 + 3)
      = red_row ! (4 * 1 + 3)"
    using alpha_preserved [of red_row 2 1 "settings800 1" world0 1 one_pixel invert2 1]
    by (rule conjunct1)
  then have g: "fst (applyNaturalGrain red_row 2 1 (settings800 1) world0) ! (4 * 1 + 3) = 255"
    by (simp only: b)
  have "applyLUTTransformation one_pixel invert2 1 = Inr ?out
      \<longrightarrow> data_img ?out ! (4 * 0 + 3) = data_img one_pixel ! (4 * 0 + 3)"
    using alpha_preserved [of red_row 2 1 "settings800 1" world0 0 one_pixel invert2 1]
    by blast
  with grade_one_pixel a have "data_img ?out ! (4 * 0 + 3) = 77"
    by (metis)
  moreover have "data_img ?out ! 0 = 255"
    by simp
  ultimately have "\<exists>out. applyLUTTransformation one_pixel invert2 1 = Inr out
          \<and> data_img out ! 0 = 255 \<and> data_img out ! (4 * 0 + 3) = 77"
    using grade_one_pixel by blast
  with g show ?thesis
    by (rule conjI)
qed

section \<open>Properties of the parser\<close>

lemma parseLine_data:
  "data_lut (parseLine line l)
     = data_lut l @ (if isDataLine line then [rowOf (tokens (trim line))] else [])"
  by (simp add: parseLine_def isDataLine_def Let_def)

lemma fold_parseLine_data:
  "data_lut (fold parseLine ls l)
     = data_lut l @ map (\<lambda>line. rowOf (tokens (trim line))) (filter isDataLine ls)"
  by (induction ls arbitrary: l) (simp_all add: parseLine_data)

lemma parseFloat_examples:
  "parseFloat ''LUT_3D_INPUT_RANGE'' = NaN" "parseFloat ''0.0'' = Finite 0"
  "parseFloat ''-1.5e1x'' = Finite (- 15)" "parseFloat ''.'' = NaN"
  by code_simp+

lemma parse_range_line:
  "parseCUBEFile range_line
     = Inr \<lparr>size_lut = Some 33, data_lut = [\<lparr>r_ch = None, g_ch = Some 0, b_ch = Some 1\<rparr>],
            title_lut = ''Unknown LUT''\<rparr>"
  unfolding range_line_def by code_simp

lemma range_line_no_float_row: "filter isFloatRow (splitLines [] range_line) = []"
  unfolding range_line_def by code_simp

lemma parse_short_cube:
  "parseCUBEFile short_cube
     = Inr \<lparr>size_lut = Some 2, data_lut = [rgb 0 (1 / 2) 1], title_lut = ''Unknown LUT''\<rparr>"
  unfolding short_cube_def rgb_def by code_simp

lemma comment_only_no_row: "filter isDataLine (splitLines [] comment_only) = []"
  unfolding comment_only_def by code_simp

text \<open>
  C7, as the code has it. Parsing fails, with the one error it has, exactly when the
  payload has no data line: a line that is not blank, not a comment, not a \<open>TITLE\<close> or
  \<open>LUT_3D_SIZE\<close> line, and has exactly three tokens, numbers or not. Otherwise the table is
  returned with one row per data line, whatever its size says.
\<close>

theorem parse_fails_iff_no_row:
  "(parseCUBEFile content = Inl NoValidLUTData
      \<longleftrightarrow> filter isDataLine (splitLines [] content) = [])
   \<and> (\<forall>e. parseCUBEFile content = Inl e \<longrightarrow> e = NoValidLUTData)
   \<and> (\<forall>l. parseCUBEFile content = Inr l \<longrightarrow> data_lut l = dataRows content \<and> data_lut l \<noteq> [])"
  by (auto simp: parseCUBEFile_def Let_def fold_parseLine_data dataRows_def)

theorem parse_fails_iff_no_row_witness:
  "filter isDataLine (splitLines [] comment_only) = []
   \<and> parseCUBEFile comment_only = Inl NoValidLUTData
   \<and> (\<exists>l. parseCUBEFile short_cube = Inr l \<and> size_lut l = Some 2
          \<and> data_lut l = dataRows short_cube \<and> length (data_lut l) = 1)"
proof -
  let ?l = "\<lparr>size_lut = Some 2, data_lut = [rgb 0 (1 / 2) 1], title_lut = ''Unknown LUT''\<rparr>"
  have a: "parseCUBEFile comment_only = Inl NoValidLUTData"
    using parse_fails_iff_no_row [of comment_only] comment_only_no_row by blast
  have b: "data_lut ?l = dataRows short_cube"
    using parse_fails_iff_no_row [of short_cube] parse_short_cube by blast
  have "size_lut ?l = Some 2" "length (data_lut ?l) = 1"
    by simp_all
  with b parse_short_cube
  have "\<exists>l. parseCUBEFile short_cube = Inr l \<and> size_lut l = Some 2
          \<and> data_lut l = dataRows short_cube \<and> length (data_lut l) = 1"
    by blast
  with a comment_only_no_row show ?thesis
    by blast
qed

text \<open>
  C7 as stated fails: a payload whose only line has three tokens that are not three floats
  has no row of floats, and is parsed into a table with a NaN channel.
\<close>

theorem parse_three_tokens_counterexample:
  "filter isFloatRow (splitLines [] range_line) = []
   \<and> parseCUBEFile range_line \<noteq> Inl NoValidLUTData"
  using parse_range_line range_line_no_float_row by simp

section \<open>Properties of \<open>applyLUT\<close>\<close>

lemma applyLUT_load_failure:
  assumes "lutCache (initialize net p) lutName = Some \<lparr>data_info = None\<rparr>"
    and "cube net lutName = None"
  shows "fst (applyLUT net p imageData lutName s) = Inr imageData"
  using assms by (auto simp: applyLUT_def loadExternalLUT_def Let_def split: option.splits)

lemma applyLUT_grades:
  "fst (applyLUT offline loaded (Some one_pixel) ''invert'' 1)
     = Inr (Some (one_pixel\<lparr>data_img := [255, 255, 255, 77]\<rparr>))"
  by (simp add: applyLUT_def initialize_def loaded_def Let_def grade_one_pixel)

text \<open>
  C8. \<open>applyLUT\<close> resolves to the image it was given, and does not reject, when the name
  is \<open>none\<close>, when the strength is 0, and when the cache (after initialisation) has no
  entry for the name.
\<close>

theorem applyLUT_noop:
  assumes "lutName = ''none'' \<or> s = 0 \<or> lutCache (initialize net p) lutName = None"
  shows "applyLUT net p imageData lutName s = (Inr imageData, initialize net p)"
  using assms by (auto simp: applyLUT_def Let_def split: option.splits)

theorem applyLUT_noop_witness:
  "fst (applyLUT offline fresh (Some one_pixel) ''none'' 1) = Inr (Some one_pixel)
   \<and> fst (applyLUT offline fresh (Some one_pixel) ''Fuji_Pro_400h'' 0) = Inr (Some one_pixel)
   \<and> lutCache (initialize offline fresh) ''Kodak_Gold_200'' = None
   \<and> fst (applyLUT offline fresh (Some one_pixel) ''Kodak_Gold_200'' 1) = Inr (Some one_pixel)"
proof -
  have m: "lutCache (initialize offline fresh) ''Kodak_Gold_200'' = None"
    by (simp add: initialize_def offline_def fresh_def)
  have "applyLUT offline fresh (Some one_pixel) ''none'' 1
      = (Inr (Some one_pixel), initialize offline fresh)"
    by (rule applyLUT_noop) simp
  moreover have "applyLUT offline fresh (Some one_pixel) ''Fuji_Pro_400h'' 0
      = (Inr (Some one_pixel), initialize offline fresh)"
    by (rule applyLUT_noop) simp
  moreover have "applyLUT offline fresh (Some one_pixel) ''Kodak_Gold_200'' 1
      = (Inr (Some one_pixel), initialize offline fresh)"
    by (rule applyLUT_noop) (simp add: m)
  ultimately show ?thesis
    using m by simp
qed

end
